theory Spec2Isabelle
  imports Complex_Main "HOL-Library.Signed_Division"
begin

section \<open>Platform: errors, console, localStorage, JSON\<close>

text \<open>
  The JavaScript sources run against browser services that are not part of the repository:
  \<^verbatim>\<open>window.localStorage\<close>, \<^verbatim>\<open>JSON\<close>, \<^verbatim>\<open>console\<close>, timers and the DOM.
  Each service is modelled as explicit state or as an explicit parameter, and every
  exception that the sources catch is a value of \<open>js_error\<close>.
\<close>

datatype js_error = SecurityError | QuotaExceededError | TypeError | SyntaxError

text \<open>
  JavaScript values that travel through the preference store. Numbers are carried, never
  computed with.
\<close>

datatype js_value =
    JSNull
  | JSBool bool
  | JSNumber real
  | JSString string
  | JSArray "js_value list"
  | JSObject "(string \<times> js_value) list"

text \<open>
  One call of \<^verbatim>\<open>console.error(message, data)\<close>; the second argument is optional.
\<close>

datatype console_arg = ErrorArg js_error | TextArg string

type_synonym console_entry = "string \<times> console_arg option"

text \<open>
  \<^verbatim>\<open>window.localStorage\<close>. Reading the property raises \<open>SecurityError\<close> when the
  browser denies storage to the page; \<^verbatim>\<open>setItem\<close> raises \<open>QuotaExceededError\<close> when
  the browser refuses the new value. Which writes are refused is the browser's policy
  and is a field of the model.
\<close>

record local_storage =
  ls_items :: "string \<rightharpoonup> string"
  ls_denied :: bool
  ls_refuses :: "(string \<rightharpoonup> string) \<Rightarrow> string \<Rightarrow> string \<Rightarrow> bool"

record browser =
  localStorage :: local_storage
  console_errors :: "console_entry list"

definition window_localStorage :: "browser \<Rightarrow> js_error + local_storage" where
  "window_localStorage b =
     (if ls_denied (localStorage b) then Inl SecurityError else Inr (localStorage b))"

definition getItem :: "string \<Rightarrow> local_storage \<Rightarrow> string option" where
  "getItem k ls = ls_items ls k"

definition setItem :: "string \<Rightarrow> string \<Rightarrow> local_storage \<Rightarrow> js_error + local_storage" where
  "setItem k v ls =
     (if ls_refuses ls (ls_items ls) k v then Inl QuotaExceededError
      else Inr (ls\<lparr>ls_items := (ls_items ls)(k \<mapsto> v)\<rparr>))"

definition console_error :: "string \<Rightarrow> console_arg option \<Rightarrow> browser \<Rightarrow> browser" where
  "console_error msg arg b = b\<lparr>console_errors := console_errors b @ [(msg, arg)]\<rparr>"

text \<open>
  \<^verbatim>\<open>JSON.stringify\<close> and \<^verbatim>\<open>JSON.parse\<close> are platform functions. \<open>JSON_stringify\<close>
  either throws, returns \<^verbatim>\<open>undefined\<close> (\<open>None\<close>) or returns a text; \<open>JSON_parse\<close>
  either throws or returns a value.
\<close>

record 'v json_api =
  JSON_stringify :: "'v \<Rightarrow> js_error + string option"
  JSON_parse :: "string \<Rightarrow> js_error + 'v"

section \<open>Utils.storage\<close>

text \<open>
  \<^verbatim>\<open>const finalKey = namespace ? `${namespace}.${key}` : key;\<close>
  The namespace parameter defaults to \<^verbatim>\<open>null\<close> (\<open>None\<close>); \<^verbatim>\<open>null\<close> and the empty
  string are both falsy.
\<close>

definition finalKey :: "string option \<Rightarrow> string \<Rightarrow> string" where
  "finalKey namespace key =
     (case namespace of
        None \<Rightarrow> key
      | Some ns \<Rightarrow> if ns = [] then key else ns @ ''.'' @ key)"

text \<open>
  \<^verbatim>\<open>localStorage.setItem(finalKey, JSON.stringify(value))\<close> converts its argument to
  a string, so \<^verbatim>\<open>undefined\<close> is stored as the text \<^verbatim>\<open>undefined\<close>.
\<close>

definition item_text :: "string option \<Rightarrow> string" where
  "item_text txt = (case txt of None \<Rightarrow> ''undefined'' | Some t \<Rightarrow> t)"

text \<open>
  \<^verbatim>\<open>Utils.storage.set(key, value, namespace)\<close>: the body of the \<^verbatim>\<open>try\<close> reads
  \<^verbatim>\<open>localStorage\<close>, then evaluates \<^verbatim>\<open>JSON.stringify(value)\<close>, then calls
  \<^verbatim>\<open>setItem\<close>; any exception is logged and the result is \<^verbatim>\<open>false\<close>.
\<close>

definition storage_set ::
  "'v json_api \<Rightarrow> string \<Rightarrow> 'v \<Rightarrow> string option \<Rightarrow> browser \<Rightarrow> bool \<times> browser" where
  "storage_set J key val namespace b =
     (let k = finalKey namespace key;
          failed = (\<lambda>e. (False, console_error ''Error saving to localStorage:'' (Some (ErrorArg e)) b))
      in case window_localStorage b of
           Inl e \<Rightarrow> failed e
         | Inr ls \<Rightarrow>
             (case JSON_stringify J val of
                Inl e \<Rightarrow> failed e
              | Inr txt \<Rightarrow>
                  (case setItem k (item_text txt) ls of
                     Inl e \<Rightarrow> failed e
                   | Inr ls' \<Rightarrow> (True, b\<lparr>localStorage := ls'\<rparr>))))"

text \<open>
  \<^verbatim>\<open>Utils.storage.get(key, defaultValue, namespace)\<close>:
  \<^verbatim>\<open>const item = localStorage.getItem(finalKey);
  return item ? JSON.parse(item) : defaultValue;\<close>
  inside \<^verbatim>\<open>try\<close>; the \<^verbatim>\<open>catch\<close> logs and returns the default. A missing item
  (\<^verbatim>\<open>null\<close>) and the empty string are falsy.
\<close>

definition localStorage_getItem :: "string \<Rightarrow> browser \<Rightarrow> js_error + string option" where
  "localStorage_getItem k b =
     (case window_localStorage b of Inl e \<Rightarrow> Inl e | Inr ls \<Rightarrow> Inr (getItem k ls))"

definition storage_get ::
  "'v json_api \<Rightarrow> string \<Rightarrow> 'v \<Rightarrow> string option \<Rightarrow> browser \<Rightarrow> 'v \<times> browser" where
  "storage_get J key defaultValue namespace b =
     (let k = finalKey namespace key;
          failed = (\<lambda>e. (defaultValue,
                     console_error ''Error reading from localStorage:'' (Some (ErrorArg e)) b))
      in case localStorage_getItem k b of
           Inl e \<Rightarrow> failed e
         | Inr None \<Rightarrow> (defaultValue, b)
         | Inr (Some item) \<Rightarrow>
             if item = [] then (defaultValue, b)
             else (case JSON_parse J item of
                     Inl e \<Rightarrow> failed e
                   | Inr v \<Rightarrow> (v, b)))"

section \<open>Plain objects and Utils.format.template\<close>

text \<open>
  \<^verbatim>\<open>obj[key]\<close> on an object created by an object literal finds the object's own
  properties first and then the members every object inherits from
  \<^verbatim>\<open>Object.prototype\<close>. The inherited members are functions (or, for
  \<^verbatim>\<open>__proto__\<close>, the prototype object itself): all of them are truthy and none of
  them has a \<^verbatim>\<open>path\<close> or a \<^verbatim>\<open>title\<close>.
\<close>

definition object_prototype_keys :: "string list" where
  "object_prototype_keys =
     [''constructor'', ''__defineGetter__'', ''__defineSetter__'', ''hasOwnProperty'',
      ''__lookupGetter__'', ''__lookupSetter__'', ''isPrototypeOf'',
      ''propertyIsEnumerable'', ''toString'', ''valueOf'', ''__proto__'',
      ''toLocaleString'']"

datatype 'a js_property = OwnProperty 'a | InheritedMember | NoProperty

definition js_lookup :: "(string \<rightharpoonup> 'a) \<Rightarrow> string \<Rightarrow> 'a js_property" where
  "js_lookup obj k =
     (case obj k of
        Some v \<Rightarrow> OwnProperty v
      | None \<Rightarrow> if k \<in> set object_prototype_keys then InheritedMember else NoProperty)"

text \<open>
  The platform: the JSON functions, and the text an inherited member converts to when
  it is used as a string (the format of a native function's source text is left to the
  engine).
\<close>

record platform =
  json :: "js_value json_api"
  member_text :: "string \<Rightarrow> string"

text \<open>
  The \<^verbatim>\<open>values\<close> argument of \<^verbatim>\<open>template\<close>, seen through
  \<^verbatim>\<open>values[key] !== undefined ? values[key] : match\<close>: the replacement text for a
  key, or \<open>None\<close> when the placeholder stays.
\<close>

definition object_text :: "platform \<Rightarrow> (string \<rightharpoonup> string) \<Rightarrow> string \<Rightarrow> string option" where
  "object_text P obj k =
     (case js_lookup obj k of
        OwnProperty v \<Rightarrow> Some v
      | InheritedMember \<Rightarrow> Some (member_text P k)
      | NoProperty \<Rightarrow> None)"

text \<open>The class \<^verbatim>\<open>\w\<close> of the regular expression: letters, digits and the underscore.\<close>

definition word_char :: "char \<Rightarrow> bool" where
  "word_char c =
     (let n = (of_char c :: nat)
      in (48 \<le> n \<and> n \<le> 57) \<or> (65 \<le> n \<and> n \<le> 90) \<or> n = 95 \<or> (97 \<le> n \<and> n \<le> 122))"

text \<open>
  \<^verbatim>\<open>template.replace(/\{(\w+)\}/g, (match, key) => ...)\<close>: scanning from the left, a
  brace followed by a non-empty maximal run of word characters and a closing brace is a
  match; the scan resumes after the closing brace. Anything else is copied.
\<close>

function template :: "string \<Rightarrow> (string \<Rightarrow> string option) \<Rightarrow> string" where
  "template [] values = []"
| "template (c # cs) values =
     (if c = CHR ''{'' \<and> takeWhile word_char cs \<noteq> []
         \<and> dropWhile word_char cs \<noteq> [] \<and> hd (dropWhile word_char cs) = CHR ''}''
      then (case values (takeWhile word_char cs) of
              Some v \<Rightarrow> v
            | None \<Rightarrow> ''{'' @ takeWhile word_char cs @ ''}'')
           @ template (tl (dropWhile word_char cs)) values
      else c # template cs values)"
  by pat_completeness auto
termination
  by (relation "measure (\<lambda>(t, v). length t)")
     (auto simp: less_Suc_eq_le intro: le_trans [OF diff_le_self length_dropWhile_le])

text \<open>\<^verbatim>\<open>haystack.includes(needle)\<close>.\<close>

fun js_includes :: "string \<Rightarrow> string \<Rightarrow> bool" where
  "js_includes [] needle = (needle = [])"
| "js_includes (c # cs) needle = (take (length needle) (c # cs) = needle \<or> js_includes cs needle)"

section \<open>SPA03: the application shell\<close>

definition NAMESPACE_spa03 :: string where
  "NAMESPACE_spa03 = ''spa03''"

record route =
  path :: string
  title :: string

text \<open>\<^verbatim>\<open>state.config\<close>, built by \<^verbatim>\<open>loadMetadata\<close>.\<close>

record shell_config =
  defaultSpa :: string
  spaRoutes :: "string \<rightharpoonup> route"
  loadingDelay :: nat
  iframeTimeout :: nat
  mobileBreakpoint :: nat

text \<open>
  The parts of \<^verbatim>\<open>state.metadata.content\<close> that the loading code reads: the four
  messages under \<^verbatim>\<open>error.messages\<close> and \<^verbatim>\<open>sidebar.title\<close>.
\<close>

record shell_metadata =
  messages_unknown :: string
  messages_timeout :: string
  messages_notFound :: string
  messages_loadFailed :: string
  sidebar_title :: string

text \<open>
  A navigation link of the sidebar: its \<^verbatim>\<open>data-spa\<close> attribute, whether its class
  list holds \<^verbatim>\<open>active\<close>, and its \<^verbatim>\<open>aria-current\<close> attribute.
\<close>

record nav_link =
  data_spa :: string
  active :: bool
  aria_current :: "string option"

text \<open>The two closures that \<^verbatim>\<open>loadSpa\<close> hands to \<^verbatim>\<open>setTimeout\<close>.\<close>

datatype timer_callback = ShowLoadingCallback | IframeTimeoutCallback

text \<open>
  The \<^verbatim>\<open>state\<close> object of the shell, the DOM state its functions write, the browser's
  table of pending timeouts (identifier to callback and delay) and the browser itself.
  The DOM state is the text of the error message, the \<^verbatim>\<open>show\<close> class of the error
  display and of the loading indicator, the navigation links, the document title, the
  \<^verbatim>\<open>src\<close> of the content frame, \<^verbatim>\<open>window.location.hash\<close>, and the classes
  \<^verbatim>\<open>open\<close>, \<^verbatim>\<open>show\<close> and \<^verbatim>\<open>sidebar-open\<close> of the sidebar, its overlay and the
  shell. The elements that \<^verbatim>\<open>cacheElements\<close> looks up exist, and the metadata
  strings are present, so that \<^verbatim>\<open>Utils.dom.setText\<close> always sets the text. Timer
  identifiers are positive and never reused: \<open>timerCount\<close> is the last one handed out.
  Of the console only the \<^verbatim>\<open>console.error\<close> lines are kept.
\<close>

record shell_state =
  metadata :: shell_metadata
  config :: shell_config
  currentSpa :: "string option"
  isMobile :: bool
  sidebarOpen :: bool
  loading :: bool
  loadingTimeout :: "nat option"
  iframeLoadTimeout :: "nat option"
  errorMessage_text :: string
  errorDisplay_show :: bool
  loadingIndicator_show :: bool
  navLinks :: "nav_link list"
  document_title :: string
  contentFrame_src :: string
  location_hash :: string
  sidebar_open :: bool
  sidebarOverlay_show :: bool
  appShell_sidebar_open :: bool
  timeouts :: "nat \<rightharpoonup> timer_callback \<times> nat"
  timerCount :: nat
  shell_browser :: browser

definition clearTimeout :: "nat option \<Rightarrow> shell_state \<Rightarrow> shell_state" where
  "clearTimeout t s =
     (case t of None \<Rightarrow> s | Some i \<Rightarrow> s\<lparr>timeouts := (timeouts s)(i := None)\<rparr>)"

definition setTimeout :: "timer_callback \<Rightarrow> nat \<Rightarrow> shell_state \<Rightarrow> nat \<times> shell_state" where
  "setTimeout cb delay s =
     (let i = Suc (timerCount s)
      in (i, s\<lparr>timeouts := (timeouts s)(i \<mapsto> (cb, delay)), timerCount := i\<rparr>))"

definition showLoading :: "shell_state \<Rightarrow> shell_state" where
  "showLoading s = s\<lparr>loadingIndicator_show := True\<rparr>"

definition hideLoading :: "shell_state \<Rightarrow> shell_state" where
  "hideLoading s = s\<lparr>loadingIndicator_show := False\<rparr>"

definition showError :: "string \<Rightarrow> shell_state \<Rightarrow> shell_state" where
  "showError message s = s\<lparr>errorMessage_text := message, errorDisplay_show := True\<rparr>"

definition hideError :: "shell_state \<Rightarrow> shell_state" where
  "hideError s = s\<lparr>errorDisplay_show := False\<rparr>"

definition updateActiveNavLink :: "string \<Rightarrow> shell_state \<Rightarrow> shell_state" where
  "updateActiveNavLink spaId s =
     s\<lparr>navLinks :=
         map (\<lambda>link. if data_spa link = spaId
                      then link\<lparr>active := True, aria_current := Some ''page''\<rparr>
                      else link\<lparr>active := False, aria_current := None\<rparr>)
             (navLinks s)\<rparr>"

text \<open>
  \<^verbatim>\<open>if (route && route.title) document.title = `${route.title} - ${sidebarTitle}`\<close>:
  the empty title is falsy, and an inherited member has no title.
\<close>

definition updatePageTitle :: "string \<Rightarrow> shell_state \<Rightarrow> shell_state" where
  "updatePageTitle spaId s =
     (case js_lookup (spaRoutes (config s)) spaId of
        OwnProperty r \<Rightarrow>
          if title r \<noteq> []
          then s\<lparr>document_title := title r @ '' - '' @ sidebar_title (metadata s)\<rparr>
          else s
      | InheritedMember \<Rightarrow> s
      | NoProperty \<Rightarrow> s)"

definition loadSpa :: "platform \<Rightarrow> string \<Rightarrow> shell_state \<Rightarrow> shell_state" where
  "loadSpa P spaId s =
     (let route = js_lookup (spaRoutes (config s)) spaId
      in if route = NoProperty
         then showError (template (messages_unknown (metadata s))
                                  (object_text P [''app'' \<mapsto> spaId])) s
         else
           let s = clearTimeout (loadingTimeout s) s;
               s = clearTimeout (iframeLoadTimeout s) s;
               s = s\<lparr>currentSpa := Some spaId, loading := True\<rparr>;
               s = s\<lparr>shell_browser :=
                       snd (storage_set (json P) ''lastVisitedSpa'' (JSString spaId)
                              (Some NAMESPACE_spa03) (shell_browser s))\<rparr>;
               s = hideError s;
               (t1, s) = setTimeout ShowLoadingCallback (loadingDelay (config s)) s;
               s = s\<lparr>loadingTimeout := Some t1\<rparr>;
               (t2, s) = setTimeout IframeTimeoutCallback (iframeTimeout (config s)) s;
               s = s\<lparr>iframeLoadTimeout := Some t2\<rparr>;
               s = updateActiveNavLink spaId s;
               s = updatePageTitle spaId s
           in s\<lparr>contentFrame_src :=
                   (case route of OwnProperty r \<Rightarrow> path r | _ \<Rightarrow> ''undefined'')\<rparr>)"

text \<open>
  What \<^verbatim>\<open>handleIframeLoad\<close> finds when it inspects the frame: reading the document
  throws (cross-origin content, or a document without a body), or the document has a
  title and a body text.
\<close>

datatype iframe_document = Inaccessible | Document string string

definition handleIframeLoad :: "iframe_document \<Rightarrow> shell_state \<Rightarrow> shell_state" where
  "handleIframeLoad doc s =
     (let s = clearTimeout (loadingTimeout s) s;
          s = clearTimeout (iframeLoadTimeout s) s
      in case doc of
           Document doc_title body \<Rightarrow>
             if doc_title = ''Error'' \<or> js_includes body ''404''
             then showError (messages_notFound (metadata s)) s
             else (hideLoading s)\<lparr>loading := False\<rparr>
         | Inaccessible \<Rightarrow> (hideLoading s)\<lparr>loading := False\<rparr>)"

definition handleIframeError :: "shell_state \<Rightarrow> shell_state" where
  "handleIframeError s =
     (let s = clearTimeout (loadingTimeout s) s;
          s = clearTimeout (iframeLoadTimeout s) s;
          s = hideLoading s
      in showError (messages_loadFailed (metadata s)) s)"

text \<open>The bodies of the two timer closures.\<close>

definition run_callback :: "timer_callback \<Rightarrow> shell_state \<Rightarrow> shell_state" where
  "run_callback cb s =
     (case cb of
        ShowLoadingCallback \<Rightarrow> if loading s then showLoading s else s
      | IframeTimeoutCallback \<Rightarrow>
          if loading s then hideLoading (showError (messages_timeout (metadata s)) s) else s)"

text \<open>
  A pending timeout elapses: the browser removes it from its table and runs the
  callback. A timeout that is not pending cannot fire.
\<close>

definition timeout_fires :: "nat \<Rightarrow> shell_state \<Rightarrow> shell_state" where
  "timeout_fires i s =
     (case timeouts s i of
        None \<Rightarrow> s
      | Some (cb, delay) \<Rightarrow> run_callback cb (s\<lparr>timeouts := (timeouts s)(i := None)\<rparr>))"

text \<open>
  \<^verbatim>\<open>handleHashChange\<close>; the argument is \<^verbatim>\<open>window.location.hash.slice(1)\<close> at the
  time of the event.
\<close>

definition handleHashChange :: "platform \<Rightarrow> string \<Rightarrow> shell_state \<Rightarrow> shell_state" where
  "handleHashChange P hash s =
     (if hash \<noteq> [] \<and> Some hash \<noteq> currentSpa s then loadSpa P hash s else s)"

definition closeSidebar :: "shell_state \<Rightarrow> shell_state" where
  "closeSidebar s =
     s\<lparr>sidebarOpen := False, sidebar_open := False, sidebarOverlay_show := False,
       appShell_sidebar_open := False\<rparr>"

text \<open>
  \<^verbatim>\<open>handleNavClick\<close>; the argument is the \<^verbatim>\<open>data-spa\<close> attribute of the link. The
  handler only sets the hash; the browser answers with a hash change event.
\<close>

definition handleNavClick :: "string \<Rightarrow> shell_state \<Rightarrow> shell_state" where
  "handleNavClick spaId s =
     (if spaId \<noteq> [] \<and> Some spaId \<noteq> currentSpa s
      then let s = s\<lparr>location_hash := ''#'' @ spaId\<rparr>
           in if isMobile s then closeSidebar s else s
      else s)"

definition retryLoadSpa :: "platform \<Rightarrow> shell_state \<Rightarrow> shell_state" where
  "retryLoadSpa P s =
     (case currentSpa s of
        None \<Rightarrow> s
      | Some spaId \<Rightarrow> if spaId \<noteq> [] then loadSpa P spaId s else s)"

text \<open>
  The events the shell reacts to after start-up: a direct call of \<^verbatim>\<open>loadSpa\<close> (as
  \<^verbatim>\<open>loadInitialSpa\<close> makes), a hash change, a click on a navigation link, the frame's
  load and error events, a pending timeout elapsing, and a click on the retry button.
\<close>

datatype shell_event =
    LoadSpa string
  | HashChange string
  | NavClick string
  | IframeLoad iframe_document
  | IframeError
  | TimeoutFires nat
  | RetryClick

fun shell_step :: "platform \<Rightarrow> shell_event \<Rightarrow> shell_state \<Rightarrow> shell_state" where
  "shell_step P (LoadSpa spaId) s = loadSpa P spaId s"
| "shell_step P (HashChange hash) s = handleHashChange P hash s"
| "shell_step P (NavClick spaId) s = handleNavClick spaId s"
| "shell_step P (IframeLoad doc) s = handleIframeLoad doc s"
| "shell_step P IframeError s = handleIframeError s"
| "shell_step P (TimeoutFires i) s = timeout_fires i s"
| "shell_step P RetryClick s = retryLoadSpa P s"

fun shell_run :: "platform \<Rightarrow> shell_event list \<Rightarrow> shell_state \<Rightarrow> shell_state" where
  "shell_run P [] s = s"
| "shell_run P (e # es) s = shell_run P es (shell_step P e s)"


section \<open>SPA02: the greeting cycler\<close>

definition NAMESPACE_spa02 :: string where
  "NAMESPACE_spa02 = ''spa02''"

text \<open>An entry of \<^verbatim>\<open>SPA02.metadata.languages\<close>.\<close>

record language =
  code :: string
  name :: string
  greeting :: string
  rtl :: bool

text \<open>
  The \<^verbatim>\<open>SPA02\<close> object, the DOM state its functions write (text and \<^verbatim>\<open>rtl\<close>
  class of the greeting, values of the language selector and of the speed slider, text of
  the speed label, text and \<^verbatim>\<open>cycling\<close> class of the status line), the three
  metadata strings they read, the browser's table of running intervals and the browser.
  An interval is recorded with the slider value its period was computed from
  (\<^verbatim>\<open>parseFloat(value) * 1000\<close> is not evaluated). Interval identifiers are positive
  and never reused. The elements that \<^verbatim>\<open>cacheElements\<close> looks up exist, and the
  greeting and status texts are strings, so that \<^verbatim>\<open>Utils.dom.setText\<close> always sets
  the text.
\<close>

record cycler_state =
  languages :: "language list"
  currentIndex :: int
  cycleInterval :: "nat option"
  isCycling :: bool
  greeting_text :: string
  greeting_rtl :: bool
  languageSelect_value :: string
  speedSlider_value :: string
  speedValue_text :: string
  status_text :: string
  status_cycling :: bool
  labels_speedUnit :: string
  content_status_cycling :: string
  content_status_manual :: string
  intervals :: "nat \<rightharpoonup> string"
  intervalCount :: nat
  cycler_browser :: browser

text \<open>\<^verbatim>\<open>Array.prototype.findIndex\<close>: the first index that satisfies the test, or -1.\<close>

fun findIndex_from :: "int \<Rightarrow> ('a \<Rightarrow> bool) \<Rightarrow> 'a list \<Rightarrow> int" where
  "findIndex_from k test [] = - 1"
| "findIndex_from k test (x # xs) = (if test x then k else findIndex_from (k + 1) test xs)"

definition findIndex :: "('a \<Rightarrow> bool) \<Rightarrow> 'a list \<Rightarrow> int" where
  "findIndex test xs = findIndex_from 0 test xs"

text \<open>
  \<^verbatim>\<open>Utils.debug.error(message, error)\<close> passes the second argument on only when it
  is truthy.
\<close>

definition debug_error :: "string \<Rightarrow> string \<Rightarrow> browser \<Rightarrow> browser" where
  "debug_error message dat b =
     console_error message (if dat = [] then None else Some (TextArg dat)) b"

definition updateGreeting :: "string \<Rightarrow> cycler_state \<Rightarrow> cycler_state" where
  "updateGreeting langCode s =
     (case find (\<lambda>lang. code lang = langCode) (languages s) of
        None \<Rightarrow>
          s\<lparr>cycler_browser := debug_error ''Invalid language code:'' langCode (cycler_browser s)\<rparr>
      | Some lang \<Rightarrow> s\<lparr>greeting_text := greeting lang, greeting_rtl := rtl lang\<rparr>)"

definition saveToStorage :: "platform \<Rightarrow> cycler_state \<Rightarrow> cycler_state" where
  "saveToStorage P s =
     (let b = snd (storage_set (json P) ''selectedLanguage'' (JSString (languageSelect_value s))
                     (Some NAMESPACE_spa02) (cycler_browser s));
          b = snd (storage_set (json P) ''cycleSpeed'' (JSString (speedSlider_value s))
                     (Some NAMESPACE_spa02) b)
      in s\<lparr>cycler_browser := b\<rparr>)"

definition clearInterval :: "nat \<Rightarrow> cycler_state \<Rightarrow> cycler_state" where
  "clearInterval i s = s\<lparr>intervals := (intervals s)(i := None)\<rparr>"

definition setInterval :: "string \<Rightarrow> cycler_state \<Rightarrow> nat \<times> cycler_state" where
  "setInterval speed s =
     (let i = Suc (intervalCount s)
      in (i, s\<lparr>intervals := (intervals s)(i \<mapsto> speed), intervalCount := i\<rparr>))"

text \<open>
  \<^verbatim>\<open>if (SPA02.cycleInterval) clearInterval(SPA02.cycleInterval)\<close>: \<^verbatim>\<open>null\<close> and 0 are
  falsy.
\<close>

definition startCycling :: "cycler_state \<Rightarrow> cycler_state" where
  "startCycling s =
     (let s = (case cycleInterval s of
                 None \<Rightarrow> s
               | Some i \<Rightarrow> if i \<noteq> 0 then clearInterval i s else s);
          (i, s) = setInterval (speedSlider_value s) s
      in s\<lparr>cycleInterval := Some i, isCycling := True,
            status_text := content_status_cycling s, status_cycling := True\<rparr>)"

definition stopCycling :: "cycler_state \<Rightarrow> cycler_state" where
  "stopCycling s =
     (let s = (case cycleInterval s of
                 None \<Rightarrow> s
               | Some i \<Rightarrow> if i \<noteq> 0 then (clearInterval i s)\<lparr>cycleInterval := None\<rparr> else s)
      in s\<lparr>isCycling := False,
            status_text := content_status_manual s, status_cycling := False\<rparr>)"

text \<open>
  The callback that \<^verbatim>\<open>startCycling\<close> hands to \<^verbatim>\<open>setInterval\<close>. The remainder
  operator of JavaScript takes the sign of the dividend (\<open>smod\<close>). With an empty
  language list the remainder is \<^verbatim>\<open>NaN\<close>, \<^verbatim>\<open>languages[NaN]\<close> is \<^verbatim>\<open>undefined\<close> and
  reading its \<^verbatim>\<open>code\<close> throws; so does reading the code of an entry at a negative
  index. The exception leaves the callback, and the model returns it.
\<close>

definition cycle_tick :: "platform \<Rightarrow> cycler_state \<Rightarrow> js_error + cycler_state" where
  "cycle_tick P s =
     (let n = int (length (languages s))
      in if n = 0 then Inl TypeError
         else
           let i = (currentIndex s + 1) smod n
           in if i < 0 \<or> n \<le> i then Inl TypeError
              else
                let lang = languages s ! nat i;
                    s = s\<lparr>currentIndex := i\<rparr>;
                    s = s\<lparr>languageSelect_value := code lang\<rparr>;
                    s = updateGreeting (code lang) s
                in Inr (saveToStorage P s))"

text \<open>
  The \<^verbatim>\<open>change\<close> listener of the language selector; the argument is
  \<^verbatim>\<open>e.target.value\<close>.
\<close>

definition languageSelect_change :: "platform \<Rightarrow> string \<Rightarrow> cycler_state \<Rightarrow> cycler_state" where
  "languageSelect_change P target_value s =
     (let s = stopCycling s;
          s = updateGreeting target_value s;
          s = saveToStorage P s
      in s\<lparr>currentIndex := findIndex (\<lambda>lang. code lang = target_value) (languages s)\<rparr>)"

text \<open>
  The \<^verbatim>\<open>input\<close> listener of the speed slider;
  \<^verbatim>\<open>SPA02.metadata.content.labels.speedUnit || 's'\<close> falls back when the unit is empty.
\<close>

definition speedSlider_input :: "platform \<Rightarrow> string \<Rightarrow> cycler_state \<Rightarrow> cycler_state" where
  "speedSlider_input P target_value s =
     (let speedUnit = (if labels_speedUnit s = [] then ''s'' else labels_speedUnit s);
          s = s\<lparr>speedValue_text := target_value @ speedUnit\<rparr>;
          s = saveToStorage P s
      in if isCycling s then startCycling s else s)"

text \<open>
  The last statements of \<^verbatim>\<open>initSPA02\<close> (\<^verbatim>\<open>// Initialize greeting\<close> and
  \<^verbatim>\<open>// Start auto-cycling\<close>), which set \<^verbatim>\<open>currentIndex\<close>; the argument is the state
  that \<^verbatim>\<open>populateLanguages\<close>, \<^verbatim>\<open>loadFromStorage\<close> and \<^verbatim>\<open>setupEventListeners\<close>
  leave.
\<close>

definition initSPA02_greeting :: "cycler_state \<Rightarrow> cycler_state" where
  "initSPA02_greeting s =
     (let initialLang = languageSelect_value s;
          s = s\<lparr>currentIndex := findIndex (\<lambda>lang. code lang = initialLang) (languages s)\<rparr>;
          s = updateGreeting initialLang s
      in startCycling s)"

text \<open>
  The events after initialisation. The selector (the slider) already holds the new value
  when its listener runs, because the event's target is the element itself. A running
  interval fires its callback; an interval that was cleared cannot fire.
\<close>

datatype cycler_event =
    LanguageSelected string
  | SpeedChanged string
  | IntervalFires nat

fun cycler_step :: "platform \<Rightarrow> cycler_event \<Rightarrow> cycler_state \<Rightarrow> js_error + cycler_state" where
  "cycler_step P (LanguageSelected v) s =
     Inr (languageSelect_change P v (s\<lparr>languageSelect_value := v\<rparr>))"
| "cycler_step P (SpeedChanged v) s =
     Inr (speedSlider_input P v (s\<lparr>speedSlider_value := v\<rparr>))"
| "cycler_step P (IntervalFires i) s =
     (case intervals s i of None \<Rightarrow> Inr s | Some speed \<Rightarrow> cycle_tick P s)"

fun cycler_run :: "platform \<Rightarrow> cycler_event list \<Rightarrow> cycler_state \<Rightarrow> js_error + cycler_state" where
  "cycler_run P [] s = Inr s"
| "cycler_run P (e # es) s =
     (case cycler_step P e s of Inl err \<Rightarrow> Inl err | Inr s' \<Rightarrow> cycler_run P es s')"


section \<open>Predicates used in the statements\<close>

text \<open>
  The test of \<^verbatim>\<open>handleIframeLoad\<close> for content that reports an error:
  \<^verbatim>\<open>iframeDoc.title === 'Error' || iframeDoc.body.textContent.includes('404')\<close>.
  Content that cannot be inspected never looks like an error.
\<close>

definition looks_not_found :: "iframe_document \<Rightarrow> bool" where
  "looks_not_found doc =
     (case doc of
        Inaccessible \<Rightarrow> False
      | Document doc_title body \<Rightarrow> doc_title = ''Error'' \<or> js_includes body ''404'')"

text \<open>
  The shell owns its timers: every pending timeout was handed out by the browser and is
  the one recorded in \<^verbatim>\<open>state.loadingTimeout\<close> or in \<^verbatim>\<open>state.iframeLoadTimeout\<close>.
\<close>

definition timers_owned :: "shell_state \<Rightarrow> bool" where
  "timers_owned s =
     (\<forall>i. timeouts s i \<noteq> None \<longrightarrow>
        i \<le> timerCount s \<and> (loadingTimeout s = Some i \<or> iframeLoadTimeout s = Some i))"

text \<open>
  The events that can follow a request without being a request themselves: the frame's
  load and error events and an elapsing timer.
\<close>

definition follows_request :: "shell_event \<Rightarrow> bool" where
  "follows_request e =
     (case e of
        IframeLoad doc \<Rightarrow> True
      | IframeError \<Rightarrow> True
      | TimeoutFires i \<Rightarrow> True
      | _ \<Rightarrow> False)"




section \<open>Sample data\<close>

text \<open>
  Concrete data on which the theorems below are exercised. \<open>ascii_json\<close> agrees with the
  browser's JSON on \<^verbatim>\<open>null\<close>, the booleans and strings of printable characters
  without quotes and backslashes; everything else lies outside the fragment and is
  reported as an error, so only values and texts of the fragment are used with it.
\<close>

definition plain_char :: "char \<Rightarrow> bool" where
  "plain_char c = (c \<noteq> CHR 0x22 \<and> c \<noteq> CHR 0x5C \<and> 32 \<le> (of_char c :: nat))"

definition ascii_stringify :: "js_value \<Rightarrow> js_error + string option" where
  "ascii_stringify v =
     (case v of
        JSNull \<Rightarrow> Inr (Some ''null'')
      | JSBool b \<Rightarrow> Inr (Some (if b then ''true'' else ''false''))
      | JSString str \<Rightarrow>
          if list_all plain_char str then Inr (Some (CHR 0x22 # str @ [CHR 0x22]))
          else Inl TypeError
      | _ \<Rightarrow> Inl TypeError)"

definition ascii_parse :: "string \<Rightarrow> js_error + js_value" where
  "ascii_parse t =
     (if t = ''null'' then Inr JSNull
      else if t = ''true'' then Inr (JSBool True)
      else if t = ''false'' then Inr (JSBool False)
      else if 2 \<le> length t \<and> hd t = CHR 0x22 \<and> last t = CHR 0x22
              \<and> list_all plain_char (butlast (tl t))
      then Inr (JSString (butlast (tl t)))
      else Inl SyntaxError)"

definition ascii_json :: "js_value json_api" where
  "ascii_json = \<lparr>JSON_stringify = ascii_stringify, JSON_parse = ascii_parse\<rparr>"

definition example_platform :: platform where
  "example_platform =
     \<lparr>json = ascii_json,
      member_text = (\<lambda>k. ''function '' @ k @ ''() { [native code] }'')\<rparr>"

definition empty_browser :: browser where
  "empty_browser =
     \<lparr>localStorage = \<lparr>ls_items = Map.empty, ls_denied = False, ls_refuses = (\<lambda>items k v. False)\<rparr>,
      console_errors = []\<rparr>"

text \<open>A browser that denies the page its storage.\<close>

definition denying_browser :: browser where
  "denying_browser =
     \<lparr>localStorage = \<lparr>ls_items = Map.empty, ls_denied = True, ls_refuses = (\<lambda>items k v. False)\<rparr>,
      console_errors = []\<rparr>"

text \<open>
  A browser whose store holds the shell's last visited page and, under the cycler's
  speed key, a text that is not JSON.
\<close>

definition visited_browser :: browser where
  "visited_browser =
     \<lparr>localStorage =
        \<lparr>ls_items = [''spa03.lastVisitedSpa'' \<mapsto> [CHR 0x22] @ ''spa02'' @ [CHR 0x22],
                     ''spa02.cycleSpeed'' \<mapsto> ''{1.5''],
         ls_denied = False, ls_refuses = (\<lambda>items k v. False)\<rparr>,
      console_errors = []\<rparr>"

text \<open>
  A browser whose store has reached its quota while it holds the first page as the last
  visited one: every write is refused.
\<close>

definition full_browser :: browser where
  "full_browser =
     \<lparr>localStorage =
        \<lparr>ls_items = [''spa03.lastVisitedSpa'' \<mapsto> [CHR 0x22] @ ''spa01'' @ [CHR 0x22]],
         ls_denied = False, ls_refuses = (\<lambda>items k v. True)\<rparr>,
      console_errors = []\<rparr>"

text \<open>
  The shell after \<^verbatim>\<open>initializeApp\<close> has loaded its metadata and before
  \<^verbatim>\<open>loadInitialSpa\<close>, with the two routes, the delays and the messages of the
  repository's earlier, self-contained version of the shell.
\<close>

definition example_routes :: "string \<rightharpoonup> route" where
  "example_routes =
     [''spa01'' \<mapsto> \<lparr>path = ''../spa01/spa01.html'', title = ''Hello World''\<rparr>,
      ''spa02'' \<mapsto> \<lparr>path = ''../spa02/spa02.html'', title = ''Multi-Language''\<rparr>]"

definition example_shell :: shell_state where
  "example_shell =
     \<lparr>metadata =
        \<lparr>messages_unknown = ''Unknown application: {app}'',
         messages_timeout = ''Loading timeout. The application took too long to respond.'',
         messages_notFound = ''The requested application could not be found.'',
         messages_loadFailed = ''Failed to load the application. Please check your connection.'',
         sidebar_title = ''SPA Shell''\<rparr>,
      config =
        \<lparr>defaultSpa = ''spa01'', spaRoutes = example_routes, loadingDelay = 300,
         iframeTimeout = 10000, mobileBreakpoint = 768\<rparr>,
      currentSpa = None, isMobile = False, sidebarOpen = False, loading = False,
      loadingTimeout = None, iframeLoadTimeout = None,
      errorMessage_text = [], errorDisplay_show = False, loadingIndicator_show = False,
      navLinks =
        [\<lparr>data_spa = ''spa01'', active = False, aria_current = None\<rparr>,
         \<lparr>data_spa = ''spa02'', active = False, aria_current = None\<rparr>],
      document_title = ''SPA Shell'', contentFrame_src = [], location_hash = ''#spa01'',
      sidebar_open = False, sidebarOverlay_show = False, appShell_sidebar_open = False,
      timeouts = Map.empty, timerCount = 0, shell_browser = empty_browser\<rparr>"

text \<open>The shell after it has loaded the first page.\<close>

definition example_loaded :: shell_state where
  "example_loaded = handleIframeLoad Inaccessible (loadSpa example_platform ''spa01'' example_shell)"


text \<open>
  The shell loaded on the first page in the browser whose store is full, and the shell at
  start-up in the browser that denies storage.
\<close>

definition full_shell :: shell_state where
  "full_shell = example_loaded\<lparr>shell_browser := full_browser\<rparr>"

definition denied_shell :: shell_state where
  "denied_shell = example_shell\<lparr>shell_browser := denying_browser\<rparr>"

text \<open>
  A cycler with three languages, the last one written right to left, as
  \<^verbatim>\<open>populateLanguages\<close> and \<^verbatim>\<open>loadFromStorage\<close> leave it for an empty store.
\<close>

definition example_languages :: "language list" where
  "example_languages =
     [\<lparr>code = ''en'', name = ''English'', greeting = ''Hello World'', rtl = False\<rparr>,
      \<lparr>code = ''es'', name = ''Spanish'', greeting = ''Hola Mundo'', rtl = False\<rparr>,
      \<lparr>code = ''ar'', name = ''Arabic'', greeting = ''Marhaban bialealam'', rtl = True\<rparr>]"

definition example_cycler :: cycler_state where
  "example_cycler =
     \<lparr>languages = example_languages, currentIndex = 0, cycleInterval = None,
      isCycling = True, greeting_text = [], greeting_rtl = False,
      languageSelect_value = ''en'', speedSlider_value = ''1.5'', speedValue_text = ''1.5s'',
      status_text = [], status_cycling = False, labels_speedUnit = ''s'',
      content_status_cycling = ''Auto-cycling through languages...'',
      content_status_manual = ''Manual mode - select a language'',
      intervals = Map.empty, intervalCount = 0, cycler_browser = empty_browser\<rparr>"


text \<open>The same cycler after initialisation: the first greeting is shown and interval 1 runs.\<close>

definition example_cycling :: cycler_state where
  "example_cycling = initSPA02_greeting example_cycler"

text \<open>The running cycler in the browser that denies storage.\<close>

definition denied_cycling :: cycler_state where
  "denied_cycling = example_cycling\<lparr>cycler_browser := denying_browser\<rparr>"

section \<open>Utils.storage: reading\<close>

text \<open>
  Claim C10. \<^verbatim>\<open>Utils.storage.get(key, defaultValue, namespace)\<close> always returns a value
  and never throws. When \<^verbatim>\<open>localStorage.getItem\<close> finds a text under the namespaced
  key and \<^verbatim>\<open>JSON.parse\<close> accepts it, the result is the parsed value and nothing is
  logged; when there is no entry the result is the default; when the text does not parse
  the result is the default and the error is logged with \<^verbatim>\<open>console.error\<close>. The
  result is never anything but the default or the parsed stored text, and the store is
  not modified. (The empty text is not JSON; the code treats it like a missing entry.)
\<close>

theorem storage_get_never_throws:
  fixes J :: "'v json_api"
  shows "(localStorage_getItem (finalKey ns key) b = Inr (Some t) \<and> t \<noteq> [] \<and> JSON_parse J t = Inr v
            \<longrightarrow> storage_get J key d ns b = (v, b))
       \<and> (localStorage_getItem (finalKey ns key) b = Inr None
            \<longrightarrow> storage_get J key d ns b = (d, b))
       \<and> (localStorage_getItem (finalKey ns key) b = Inr (Some t) \<and> JSON_parse J t = Inl e
            \<longrightarrow> fst (storage_get J key d ns b) = d
              \<and> (t \<noteq> [] \<longrightarrow> snd (storage_get J key d ns b) =
                    console_error ''Error reading from localStorage:'' (Some (ErrorArg e)) b))
       \<and> (fst (storage_get J key d ns b) = d
            \<or> (\<exists>t'. localStorage_getItem (finalKey ns key) b = Inr (Some t')
                    \<and> JSON_parse J t' = Inr (fst (storage_get J key d ns b))))
       \<and> localStorage (snd (storage_get J key d ns b)) = localStorage b"
  by (auto simp: storage_get_def Let_def console_error_def split: sum.splits option.splits)

text \<open>
  The three cases on a concrete store: a stored page identifier is returned, a missing
  language falls back to the default, and a speed that is not JSON falls back to the
  default.
\<close>

theorem storage_get_never_throws_witness:
  "storage_get ascii_json ''lastVisitedSpa'' JSNull (Some ''spa03'') visited_browser
     = (JSString ''spa02'', visited_browser)
   \<and> storage_get ascii_json ''selectedLanguage'' (JSString ''en'') (Some ''spa02'') visited_browser
     = (JSString ''en'', visited_browser)
   \<and> fst (storage_get ascii_json ''cycleSpeed'' (JSString ''2'') (Some ''spa02'') visited_browser)
     = JSString ''2''"
proof -
  have stored: "localStorage_getItem (finalKey (Some ''spa03'') ''lastVisitedSpa'') visited_browser
                  = Inr (Some ([CHR 0x22] @ ''spa02'' @ [CHR 0x22]))"
    by (simp add: localStorage_getItem_def window_localStorage_def getItem_def finalKey_def
        visited_browser_def)
  have parsed: "JSON_parse ascii_json ([CHR 0x22] @ ''spa02'' @ [CHR 0x22]) = Inr (JSString ''spa02'')"
    by (simp add: ascii_json_def ascii_parse_def plain_char_def)
  have missing: "localStorage_getItem (finalKey (Some ''spa02'') ''selectedLanguage'') visited_browser
                  = Inr None"
    by (simp add: localStorage_getItem_def window_localStorage_def getItem_def finalKey_def
        visited_browser_def)
  have broken: "localStorage_getItem (finalKey (Some ''spa02'') ''cycleSpeed'') visited_browser
                  = Inr (Some ''{1.5'')"
    by (simp add: localStorage_getItem_def window_localStorage_def getItem_def finalKey_def
        visited_browser_def)
  have unparsed: "JSON_parse ascii_json ''{1.5'' = Inl SyntaxError"
    by (simp add: ascii_json_def ascii_parse_def)
  from storage_get_never_throws [of "Some ''spa03''" "''lastVisitedSpa''" visited_browser
      "[CHR 0x22] @ ''spa02'' @ [CHR 0x22]" ascii_json "JSString ''spa02''" JSNull]
    stored parsed
  have one: "storage_get ascii_json ''lastVisitedSpa'' JSNull (Some ''spa03'') visited_browser
     = (JSString ''spa02'', visited_browser)"
    by simp
  from storage_get_never_throws [of "Some ''spa02''" "''selectedLanguage''" visited_browser
      _ ascii_json _ "JSString ''en''"] missing
  have two: "storage_get ascii_json ''selectedLanguage'' (JSString ''en'') (Some ''spa02'') visited_browser
     = (JSString ''en'', visited_browser)"
    by simp
  from storage_get_never_throws [of "Some ''spa02''" "''cycleSpeed''" visited_browser
      "''{1.5''" ascii_json _ "JSString ''2''" SyntaxError] broken unparsed
  have three: "fst (storage_get ascii_json ''cycleSpeed'' (JSString ''2'') (Some ''spa02'') visited_browser)
     = JSString ''2''"
    by simp
  from one two three show ?thesis by simp
qed


section \<open>Utils.storage: writing and reading back\<close>

text \<open>
  What a call of \<^verbatim>\<open>Utils.storage.set\<close> does to the browser: on success exactly one
  item is written; on failure exactly one line is logged and the store is untouched.
\<close>

lemma storage_set_True:
  assumes "storage_set J key v ns b = (True, b')"
  shows "\<not> ls_denied (localStorage b)
       \<and> (\<exists>txt. JSON_stringify J v = Inr txt
            \<and> \<not> ls_refuses (localStorage b) (ls_items (localStorage b)) (finalKey ns key) (item_text txt)
            \<and> b' = b\<lparr>localStorage := (localStorage b)
                      \<lparr>ls_items := (ls_items (localStorage b))(finalKey ns key \<mapsto> item_text txt)\<rparr>\<rparr>)"
  using assms
  by (auto simp: storage_set_def Let_def window_localStorage_def setItem_def
      split: sum.splits if_splits)

lemma storage_set_False:
  assumes "storage_set J key v ns b = (False, b')"
  shows "\<exists>e. b' = console_error ''Error saving to localStorage:'' (Some (ErrorArg e)) b"
  using assms
  by (auto simp: storage_set_def Let_def split: sum.splits if_splits)

lemma finalKey_distinct:
  assumes "ns \<noteq> ns'" and "\<not> (ns \<in> {None, Some []} \<and> ns' \<in> {None, Some []})"
  shows "finalKey ns key \<noteq> finalKey ns' key"
proof -
  have a: "n \<noteq> [] \<Longrightarrow> n @ ''.'' @ key \<noteq> key" for n :: string
    by (metis append_self_conv2 append.assoc append_is_Nil_conv)
  have b: "n @ ''.'' @ key = m @ ''.'' @ key \<Longrightarrow> n = m" for n m :: string
    by simp
  show ?thesis
    using assms a b by (auto simp: finalKey_def split: option.splits if_splits)
qed

lemma storage_get_other_key:
  assumes "k' \<noteq> finalKey ns' key'"
  shows "fst (storage_get J key' d ns' (b\<lparr>localStorage := (localStorage b)
                      \<lparr>ls_items := (ls_items (localStorage b))(k' \<mapsto> x)\<rparr>\<rparr>))
         = fst (storage_get J key' d ns' b)"
  using assms
  by (auto simp: storage_get_def Let_def localStorage_getItem_def window_localStorage_def
      getItem_def console_error_def split: sum.splits option.splits)

lemma storage_get_console:
  "fst (storage_get J key d ns (console_error m a b)) = fst (storage_get J key d ns b)"
  by (auto simp: storage_get_def Let_def localStorage_getItem_def window_localStorage_def
      getItem_def console_error_def split: sum.splits option.splits)

text \<open>
  A call of \<^verbatim>\<open>Utils.storage.set\<close> never changes the policy of the browser; with
  storage granted and no write refused it stores the JSON text; with storage denied it
  logs the \<open>SecurityError\<close>.
\<close>

lemma storage_set_policy:
  "ls_denied (localStorage (snd (storage_set J key v ns b))) = ls_denied (localStorage b)"
  "ls_refuses (localStorage (snd (storage_set J key v ns b))) = ls_refuses (localStorage b)"
  by (auto simp: storage_set_def Let_def window_localStorage_def setItem_def console_error_def
      split: sum.splits if_splits)

lemma storage_set_item:
  assumes "\<not> ls_denied (localStorage b)"
      and "\<forall>items k w. \<not> ls_refuses (localStorage b) items k w"
      and "JSON_stringify J v = Inr (Some t)"
  shows "storage_set J key v ns b =
           (True, b\<lparr>localStorage := (localStorage b)\<lparr>ls_items := (ls_items (localStorage b))(finalKey ns key \<mapsto> t)\<rparr>\<rparr>)"
  using assms by (simp add: storage_set_def Let_def window_localStorage_def setItem_def item_text_def)

lemma storage_set_denied:
  assumes "ls_denied (localStorage b)"
  shows "storage_set J key v ns b =
           (False, b\<lparr>console_errors := console_errors b
                       @ [(''Error saving to localStorage:'', Some (ErrorArg SecurityError))]\<rparr>)"
  using assms by (simp add: storage_set_def Let_def window_localStorage_def console_error_def)

lemma saved_denied:
  assumes "ls_denied (localStorage b)"
  shows "snd (storage_set J key' v' ns' (snd (storage_set J key v ns b))) =
           b\<lparr>console_errors := console_errors b
                 @ [(''Error saving to localStorage:'', Some (ErrorArg SecurityError)),
                    (''Error saving to localStorage:'', Some (ErrorArg SecurityError))]\<rparr>"
  using assms by (simp add: storage_set_denied)

text \<open>
  Claim C6, as amended. Let \<open>v\<close> be a value that JSON serialises to a text which parses
  back to \<open>v\<close>. If \<^verbatim>\<open>set(key, v, ns)\<close> reports success, a following
  \<^verbatim>\<open>get(key, d, ns)\<close> returns \<open>v\<close>. A \<^verbatim>\<open>set\<close> under \<open>ns\<close> never changes what
  \<^verbatim>\<open>get\<close> returns for the same key under another namespace \<open>ns'\<close>, provided the two
  are not both empty (\<^verbatim>\<open>null\<close> and the empty string both mean no prefix). A
  \<^verbatim>\<open>set\<close> that fails returns \<^verbatim>\<open>false\<close>, logs one \<^verbatim>\<open>console.error\<close> line and
  changes nothing else; nothing is thrown.
\<close>

theorem storage_roundtrip:
  fixes J :: "'v json_api"
  assumes "JSON_stringify J v = Inr (Some t)" and "t \<noteq> []" and "JSON_parse J t = Inr v"
  shows "(fst (storage_set J key v ns b) \<longrightarrow>
            fst (storage_get J key d ns (snd (storage_set J key v ns b))) = v)
       \<and> (ns' \<noteq> ns \<and> \<not> (ns \<in> {None, Some []} \<and> ns' \<in> {None, Some []}) \<longrightarrow>
            fst (storage_get J key d ns' (snd (storage_set J key v ns b)))
              = fst (storage_get J key d ns' b))
       \<and> (\<not> fst (storage_set J key v ns b) \<longrightarrow>
            (\<exists>e. snd (storage_set J key v ns b)
                   = console_error ''Error saving to localStorage:'' (Some (ErrorArg e)) b))"
proof (intro conjI impI)
  assume ok: "fst (storage_set J key v ns b)"
  then have "storage_set J key v ns b = (True, snd (storage_set J key v ns b))"
    by (cases "storage_set J key v ns b") simp
  from storage_set_True [OF this] assms(1)
  have denied: "\<not> ls_denied (localStorage b)"
    and b': "snd (storage_set J key v ns b) = b\<lparr>localStorage := (localStorage b)
                      \<lparr>ls_items := (ls_items (localStorage b))(finalKey ns key \<mapsto> t)\<rparr>\<rparr>"
    by (auto simp: item_text_def)
  show "fst (storage_get J key d ns (snd (storage_set J key v ns b))) = v"
    using denied assms(2,3) unfolding b'
    by (simp add: storage_get_def Let_def localStorage_getItem_def window_localStorage_def
        getItem_def)
next
  assume other: "ns' \<noteq> ns \<and> \<not> (ns \<in> {None, Some []} \<and> ns' \<in> {None, Some []})"
  then have keys: "finalKey ns key \<noteq> finalKey ns' key"
    using finalKey_distinct [of ns ns' key] by auto
  show "fst (storage_get J key d ns' (snd (storage_set J key v ns b)))
              = fst (storage_get J key d ns' b)"
  proof (cases "fst (storage_set J key v ns b)")
    case True
    then have "storage_set J key v ns b = (True, snd (storage_set J key v ns b))"
      by (cases "storage_set J key v ns b") simp
    from storage_set_True [OF this] obtain tx where
      "snd (storage_set J key v ns b) = b\<lparr>localStorage := (localStorage b)
          \<lparr>ls_items := (ls_items (localStorage b))(finalKey ns key \<mapsto> item_text tx)\<rparr>\<rparr>"
      by blast
    then show ?thesis using storage_get_other_key [OF keys] by simp
  next
    case False
    then have "storage_set J key v ns b = (False, snd (storage_set J key v ns b))"
      by (cases "storage_set J key v ns b") simp
    from storage_set_False [OF this] show ?thesis
      by (auto simp: storage_get_console)
  qed
next
  assume "\<not> fst (storage_set J key v ns b)"
  then have "storage_set J key v ns b = (False, snd (storage_set J key v ns b))"
    by (cases "storage_set J key v ns b") simp
  from storage_set_False [OF this]
  show "\<exists>e. snd (storage_set J key v ns b)
                   = console_error ''Error saving to localStorage:'' (Some (ErrorArg e)) b" .
qed

text \<open>
  The language code \<^verbatim>\<open>en\<close> stored under the cycler's namespace is read back, the
  shell's namespace does not see it, and a browser that denies storage makes
  \<^verbatim>\<open>set\<close> return \<^verbatim>\<open>false\<close> with one logged line.
\<close>

theorem storage_roundtrip_witness:
  "fst (storage_set ascii_json ''selectedLanguage'' (JSString ''en'') (Some ''spa02'') empty_browser)
   \<and> fst (storage_get ascii_json ''selectedLanguage'' JSNull (Some ''spa02'')
        (snd (storage_set ascii_json ''selectedLanguage'' (JSString ''en'') (Some ''spa02'') empty_browser)))
      = JSString ''en''
   \<and> fst (storage_get ascii_json ''selectedLanguage'' JSNull (Some ''spa03'')
        (snd (storage_set ascii_json ''selectedLanguage'' (JSString ''en'') (Some ''spa02'') empty_browser)))
      = JSNull
   \<and> \<not> fst (storage_set ascii_json ''selectedLanguage'' (JSString ''en'') (Some ''spa02'') denying_browser)
   \<and> console_errors (snd (storage_set ascii_json ''selectedLanguage'' (JSString ''en'') (Some ''spa02'')
        denying_browser))
      = [(''Error saving to localStorage:'', Some (ErrorArg SecurityError))]"
proof -
  let ?t = "[CHR 0x22] @ ''en'' @ [CHR 0x22]"
  have ser: "JSON_stringify ascii_json (JSString ''en'') = Inr (Some ?t)"
    by (simp add: ascii_json_def ascii_stringify_def plain_char_def)
  have ne: "?t \<noteq> []" by simp
  have par: "JSON_parse ascii_json ?t = Inr (JSString ''en'')"
    by (simp add: ascii_json_def ascii_parse_def plain_char_def)
  have ok: "fst (storage_set ascii_json ''selectedLanguage'' (JSString ''en'') (Some ''spa02'') empty_browser)"
    by (simp add: storage_set_def Let_def window_localStorage_def setItem_def empty_browser_def
        ascii_json_def ascii_stringify_def plain_char_def)
  have bad: "\<not> fst (storage_set ascii_json ''selectedLanguage'' (JSString ''en'') (Some ''spa02'') denying_browser)"
    by (simp add: storage_set_def Let_def window_localStorage_def denying_browser_def)
  have before: "fst (storage_get ascii_json ''selectedLanguage'' JSNull (Some ''spa03'') empty_browser) = JSNull"
    by (simp add: storage_get_def Let_def localStorage_getItem_def window_localStorage_def
        getItem_def empty_browser_def)
  have ns: "Some ''spa03'' \<noteq> Some ''spa02''
      \<and> \<not> (Some ''spa02'' \<in> {None, Some []} \<and> Some ''spa03'' \<in> {None, Some []})"
    by simp
  note r1 = storage_roundtrip [OF ser ne par, of "''selectedLanguage''" "Some ''spa02''"
      empty_browser JSNull "Some ''spa03''"]
  note r2 = storage_roundtrip [OF ser ne par, of "''selectedLanguage''" "Some ''spa02''"
      denying_browser JSNull "Some ''spa03''"]
  from r2 bad have "console_errors (snd (storage_set ascii_json ''selectedLanguage'' (JSString ''en'')
        (Some ''spa02'') denying_browser))
      = [(''Error saving to localStorage:'', Some (ErrorArg SecurityError))]"
    by (simp add: storage_set_def Let_def window_localStorage_def denying_browser_def
        console_error_def)
  with r1 ok bad before ns show ?thesis by simp
qed

text \<open>
  The claim as stated fails twice. In a browser that denies storage, \<^verbatim>\<open>set\<close>
  followed by \<^verbatim>\<open>get\<close> returns the default, not the value. And a value set under the
  empty namespace is returned by \<^verbatim>\<open>get\<close> without a namespace.
\<close>

theorem storage_roundtrip_counterexample:
  "fst (storage_get ascii_json ''selectedLanguage'' JSNull (Some ''spa02'')
        (snd (storage_set ascii_json ''selectedLanguage'' (JSString ''en'') (Some ''spa02'')
           denying_browser)))
     \<noteq> JSString ''en''
   \<and> fst (storage_get ascii_json ''selectedLanguage'' JSNull None
        (snd (storage_set ascii_json ''selectedLanguage'' (JSString ''en'') (Some [])
           empty_browser)))
     \<noteq> fst (storage_get ascii_json ''selectedLanguage'' JSNull None empty_browser)"
  by (simp add: storage_get_def storage_set_def Let_def localStorage_getItem_def
      window_localStorage_def getItem_def setItem_def finalKey_def item_text_def
      console_error_def denying_browser_def empty_browser_def
      ascii_json_def ascii_stringify_def ascii_parse_def plain_char_def)

section \<open>The shell: what each handler writes\<close>

text \<open>
  Each handler as a single update of the state, and what the handlers do to the timer
  table, the timer counter and the browser.
\<close>

lemma clearTimeout_update:
  "clearTimeout t s =
     s\<lparr>timeouts := (case t of None \<Rightarrow> timeouts s | Some i \<Rightarrow> (timeouts s)(i := None))\<rparr>"
  by (cases t) (simp_all add: clearTimeout_def)

lemma updatePageTitle_update:
  "updatePageTitle x s =
     s\<lparr>document_title :=
         (case js_lookup (spaRoutes (config s)) x of
            OwnProperty r \<Rightarrow>
              if title r \<noteq> [] then title r @ '' - '' @ sidebar_title (metadata s)
              else document_title s
          | _ \<Rightarrow> document_title s)\<rparr>"
  by (cases "js_lookup (spaRoutes (config s)) x") (simp_all add: updatePageTitle_def)

lemma loadSpa_unknown:
  assumes "js_lookup (spaRoutes (config s)) x = NoProperty"
  shows "loadSpa P x s =
     s\<lparr>errorMessage_text := template (messages_unknown (metadata s)) (object_text P [''app'' \<mapsto> x]),
       errorDisplay_show := True\<rparr>"
  using assms by (simp add: loadSpa_def showError_def)

lemma loadSpa_known:
  assumes "js_lookup (spaRoutes (config s)) x \<noteq> NoProperty"
  shows "loadSpa P x s =
     s\<lparr>currentSpa := Some x,
       loading := True,
       loadingTimeout := Some (Suc (timerCount s)),
       iframeLoadTimeout := Some (Suc (Suc (timerCount s))),
       errorDisplay_show := False,
       navLinks := map (\<lambda>link. if data_spa link = x
                      then link\<lparr>active := True, aria_current := Some ''page''\<rparr>
                      else link\<lparr>active := False, aria_current := None\<rparr>) (navLinks s),
       document_title :=
         (case js_lookup (spaRoutes (config s)) x of
            OwnProperty r \<Rightarrow>
              if title r \<noteq> [] then title r @ '' - '' @ sidebar_title (metadata s)
              else document_title s
          | _ \<Rightarrow> document_title s),
       contentFrame_src :=
          (case js_lookup (spaRoutes (config s)) x of OwnProperty r \<Rightarrow> path r | _ \<Rightarrow> ''undefined''),
       timeouts := (timeouts (clearTimeout (iframeLoadTimeout s) (clearTimeout (loadingTimeout s) s)))
            (Suc (timerCount s) \<mapsto> (ShowLoadingCallback, loadingDelay (config s)),
             Suc (Suc (timerCount s)) \<mapsto> (IframeTimeoutCallback, iframeTimeout (config s))),
       timerCount := Suc (Suc (timerCount s)),
       shell_browser := snd (storage_set (json P) ''lastVisitedSpa'' (JSString x)
                              (Some NAMESPACE_spa03) (shell_browser s))\<rparr>"
  using assms
  by (simp add: loadSpa_def Let_def clearTimeout_update setTimeout_def hideError_def
      updateActiveNavLink_def updatePageTitle_update
      cong: if_cong option.case_cong js_property.case_cong)

lemma handleIframeLoad_success:
  assumes "\<not> looks_not_found doc"
  shows "handleIframeLoad doc s =
     s\<lparr>timeouts := timeouts (clearTimeout (iframeLoadTimeout s) (clearTimeout (loadingTimeout s) s)),
       loadingIndicator_show := False, loading := False\<rparr>"
  using assms
  by (cases doc)
     (simp_all add: handleIframeLoad_def looks_not_found_def Let_def clearTimeout_update hideLoading_def
      cong: if_cong option.case_cong)

lemma handleIframeLoad_not_found:
  assumes "looks_not_found doc"
  shows "handleIframeLoad doc s =
     s\<lparr>timeouts := timeouts (clearTimeout (iframeLoadTimeout s) (clearTimeout (loadingTimeout s) s)),
       errorMessage_text := messages_notFound (metadata s), errorDisplay_show := True\<rparr>"
  using assms
  by (cases doc)
     (simp_all add: handleIframeLoad_def looks_not_found_def Let_def clearTimeout_update showError_def
      cong: if_cong option.case_cong)

lemma handleIframeError_update:
  "handleIframeError s =
     s\<lparr>timeouts := timeouts (clearTimeout (iframeLoadTimeout s) (clearTimeout (loadingTimeout s) s)),
       loadingIndicator_show := False,
       errorMessage_text := messages_loadFailed (metadata s), errorDisplay_show := True\<rparr>"
  by (simp add: handleIframeError_def Let_def clearTimeout_update hideLoading_def showError_def
      cong: if_cong option.case_cong)

lemma cleared_timeouts:
  "timeouts (clearTimeout u (clearTimeout t s)) i =
     (if Some i = t \<or> Some i = u then None else timeouts s i)"
  by (cases t; cases u) (auto simp: clearTimeout_update)

lemma run_callback_fields:
  "timeouts (run_callback cb s) = timeouts s"
  "timerCount (run_callback cb s) = timerCount s"
  "loadingTimeout (run_callback cb s) = loadingTimeout s"
  "iframeLoadTimeout (run_callback cb s) = iframeLoadTimeout s"
  "config (run_callback cb s) = config s"
  "shell_browser (run_callback cb s) = shell_browser s"
  by (cases cb; simp add: run_callback_def showLoading_def hideLoading_def showError_def)+

lemma timeout_fires_fields:
  "timeouts (timeout_fires j s) = (timeouts s)(j := None)"
  "timerCount (timeout_fires j s) = timerCount s"
  "loadingTimeout (timeout_fires j s) = loadingTimeout s"
  "iframeLoadTimeout (timeout_fires j s) = iframeLoadTimeout s"
  "config (timeout_fires j s) = config s"
  "shell_browser (timeout_fires j s) = shell_browser s"
  by (cases "timeouts s j"; auto simp: timeout_fires_def run_callback_fields)+

lemma loadSpa_config: "config (loadSpa P x s) = config s"
  by (cases "js_lookup (spaRoutes (config s)) x = NoProperty")
     (simp_all add: loadSpa_unknown loadSpa_known)

lemma loadSpa_timerCount: "timerCount s \<le> timerCount (loadSpa P x s)"
  by (cases "js_lookup (spaRoutes (config s)) x = NoProperty")
     (simp_all add: loadSpa_unknown loadSpa_known)

lemma loadSpa_no_revival:
  assumes "i \<le> timerCount s" and "timeouts s i = None"
  shows "timeouts (loadSpa P x s) i = None"
  using assms
  by (cases "js_lookup (spaRoutes (config s)) x = NoProperty")
     (simp_all add: loadSpa_unknown loadSpa_known cleared_timeouts)

lemma loadSpa_owned:
  assumes "timers_owned s"
  shows "timers_owned (loadSpa P x s)"
proof (cases "js_lookup (spaRoutes (config s)) x = NoProperty")
  case True
  with assms show ?thesis by (simp add: loadSpa_unknown timers_owned_def)
next
  case False
  have old: "timeouts s i \<noteq> None \<Longrightarrow> Some i = loadingTimeout s \<or> Some i = iframeLoadTimeout s" for i
    using assms unfolding timers_owned_def by metis
  show ?thesis
    unfolding timers_owned_def
  proof (intro allI impI)
    fix i
    assume "timeouts (loadSpa P x s) i \<noteq> None"
    then have "i = Suc (timerCount s) \<or> i = Suc (Suc (timerCount s))"
      using False old [of i] by (auto simp: loadSpa_known cleared_timeouts split: if_splits)
    then show "i \<le> timerCount (loadSpa P x s)
       \<and> (loadingTimeout (loadSpa P x s) = Some i \<or> iframeLoadTimeout (loadSpa P x s) = Some i)"
      using False by (auto simp: loadSpa_known)
  qed
qed

lemma handleIframeLoad_fields:
  "timeouts (handleIframeLoad doc s) =
     timeouts (clearTimeout (iframeLoadTimeout s) (clearTimeout (loadingTimeout s) s))"
  "timerCount (handleIframeLoad doc s) = timerCount s"
  "loadingTimeout (handleIframeLoad doc s) = loadingTimeout s"
  "iframeLoadTimeout (handleIframeLoad doc s) = iframeLoadTimeout s"
  "config (handleIframeLoad doc s) = config s"
  "shell_browser (handleIframeLoad doc s) = shell_browser s"
  by (cases "looks_not_found doc";
      simp add: handleIframeLoad_success handleIframeLoad_not_found)+

lemma handleIframeError_fields:
  "timeouts (handleIframeError s) =
     timeouts (clearTimeout (iframeLoadTimeout s) (clearTimeout (loadingTimeout s) s))"
  "timerCount (handleIframeError s) = timerCount s"
  "loadingTimeout (handleIframeError s) = loadingTimeout s"
  "iframeLoadTimeout (handleIframeError s) = iframeLoadTimeout s"
  "config (handleIframeError s) = config s"
  "shell_browser (handleIframeError s) = shell_browser s"
  by (simp_all add: handleIframeError_update)

lemma handleNavClick_fields:
  "timeouts (handleNavClick x s) = timeouts s"
  "timerCount (handleNavClick x s) = timerCount s"
  "loadingTimeout (handleNavClick x s) = loadingTimeout s"
  "iframeLoadTimeout (handleNavClick x s) = iframeLoadTimeout s"
  "config (handleNavClick x s) = config s"
  "shell_browser (handleNavClick x s) = shell_browser s"
  by (simp_all add: handleNavClick_def closeSidebar_def Let_def)

lemma step_config: "config (shell_step P e s) = config s"
  by (cases e)
     (auto simp: loadSpa_config handleHashChange_def retryLoadSpa_def timeout_fires_fields
        handleIframeError_fields handleIframeLoad_fields handleNavClick_fields
        split: option.splits)

lemma step_timerCount: "timerCount s \<le> timerCount (shell_step P e s)"
  by (cases e)
     (auto simp: loadSpa_timerCount handleHashChange_def retryLoadSpa_def timeout_fires_fields
        handleIframeError_fields handleIframeLoad_fields handleNavClick_fields
        split: option.splits)

lemma step_no_revival:
  assumes "i \<le> timerCount s" and "timeouts s i = None"
  shows "timeouts (shell_step P e s) i = None"
  using assms
  by (cases e)
     (auto simp: loadSpa_no_revival handleHashChange_def retryLoadSpa_def timeout_fires_fields
        handleIframeError_fields handleIframeLoad_fields handleNavClick_fields cleared_timeouts
        split: option.splits)

lemma step_owned:
  assumes "timers_owned s"
  shows "timers_owned (shell_step P e s)"
proof (cases e)
  case (LoadSpa x)
  with assms show ?thesis by (simp add: loadSpa_owned)
next
  case (HashChange h)
  with assms show ?thesis by (simp add: handleHashChange_def loadSpa_owned)
next
  case (NavClick x)
  with assms show ?thesis by (simp add: timers_owned_def handleNavClick_fields)
next
  case (IframeLoad doc)
  with assms show ?thesis
    by (auto simp: timers_owned_def handleIframeLoad_fields cleared_timeouts split: if_splits)
next
  case IframeError
  with assms show ?thesis
    by (auto simp: timers_owned_def handleIframeError_fields cleared_timeouts split: if_splits)
next
  case (TimeoutFires j)
  with assms show ?thesis
    by (auto simp: timers_owned_def timeout_fires_fields split: if_splits)
next
  case RetryClick
  with assms show ?thesis
    by (auto simp: retryLoadSpa_def loadSpa_owned split: option.splits)
qed

lemma run_config: "config (shell_run P es s) = config s"
  by (induction es arbitrary: s) (simp_all add: step_config)

lemma run_owned: "timers_owned s \<Longrightarrow> timers_owned (shell_run P es s)"
  by (induction es arbitrary: s) (simp_all add: step_owned)

lemma run_no_revival:
  assumes "i \<le> timerCount s" and "timeouts s i = None"
  shows "timeouts (shell_run P es s) i = None"
  using assms
proof (induction es arbitrary: s)
  case Nil
  then show ?case by simp
next
  case (Cons e es)
  have "i \<le> timerCount (shell_step P e s)"
    using Cons.prems(1) step_timerCount [of s P e] by linarith
  moreover have "timeouts (shell_step P e s) i = None"
    using Cons.prems by (rule step_no_revival)
  ultimately show ?case using Cons.IH by simp
qed

lemma run_timerCount: "timerCount s \<le> timerCount (shell_run P es s)"
proof (induction es arbitrary: s)
  case Nil
  then show ?case by simp
next
  case (Cons e es)
  have "timerCount s \<le> timerCount (shell_step P e s)" by (rule step_timerCount)
  also have "\<dots> \<le> timerCount (shell_run P es (shell_step P e s))" by (rule Cons.IH)
  finally show ?case by simp
qed

lemma timeout_fires_cancelled:
  "timeouts s i = None \<Longrightarrow> timeout_fires i s = s"
  by (simp add: timeout_fires_def)

lemma own_route_known:
  "spaRoutes (config s) x = Some r \<Longrightarrow> js_lookup (spaRoutes (config s)) x = OwnProperty r"
  by (simp add: js_lookup_def)

lemma owned_cleared:
  assumes "timers_owned s"
  shows "timeouts (clearTimeout (iframeLoadTimeout s) (clearTimeout (loadingTimeout s) s)) = Map.empty"
proof
  fix i
  show "timeouts (clearTimeout (iframeLoadTimeout s) (clearTimeout (loadingTimeout s) s)) i = None"
    using assms unfolding timers_owned_def cleared_timeouts by (cases "timeouts s i") fastforce+
qed

lemma loadSpa_fresh_pair:
  assumes "spaRoutes (config s) x = Some r" and "timers_owned s"
  shows "loadingTimeout (loadSpa P x s) = Some (timerCount s + 1)"
    and "iframeLoadTimeout (loadSpa P x s) = Some (timerCount s + 2)"
    and "timerCount (loadSpa P x s) = timerCount s + 2"
    and "timeouts (loadSpa P x s) =
           [timerCount s + 1 \<mapsto> (ShowLoadingCallback, loadingDelay (config s)),
            timerCount s + 2 \<mapsto> (IframeTimeoutCallback, iframeTimeout (config s))]"
  using own_route_known [OF assms(1)] owned_cleared [OF assms(2)]
  by (simp_all add: loadSpa_known)

lemma example_shell_fields:
  "timerCount example_shell = 0" "loadingDelay (config example_shell) = 300"
  "iframeTimeout (config example_shell) = 10000"
  "spaRoutes (config example_shell) = example_routes"
  "timeouts example_shell = Map.empty"
  "loadingTimeout example_shell = None" "iframeLoadTimeout example_shell = None"
  "loading example_shell = False" "errorDisplay_show example_shell = False"
  "loadingIndicator_show example_shell = False"
  "currentSpa example_shell = None"
  "document_title example_shell = ''SPA Shell''"
  "sidebar_title (metadata example_shell) = ''SPA Shell''"
  "shell_browser example_shell = empty_browser"
  by (simp_all add: example_shell_def)

lemma example_routes_lookup:
  "js_lookup example_routes ''spa01'' = OwnProperty \<lparr>path = ''../spa01/spa01.html'', title = ''Hello World''\<rparr>"
  "js_lookup example_routes ''spa02'' = OwnProperty \<lparr>path = ''../spa02/spa02.html'', title = ''Multi-Language''\<rparr>"
  "js_lookup example_routes ''constructor'' = InheritedMember"
  "js_lookup example_routes ''spa99'' = NoProperty"
  by (simp_all add: js_lookup_def example_routes_def object_prototype_keys_def)

lemma example_loaded_fields:
  "currentSpa example_loaded = Some ''spa01''"
  "loading example_loaded = False"
  "errorDisplay_show example_loaded = False"
  "timeouts example_loaded = Map.empty"
  "timerCount example_loaded = 2"
  "config example_loaded = config example_shell"
  "loadingTimeout example_loaded = Some 1"
  "iframeLoadTimeout example_loaded = Some 2"
  by (simp_all add: example_loaded_def handleIframeLoad_success looks_not_found_def
      loadSpa_known example_shell_fields example_routes_lookup clearTimeout_update fun_eq_iff)

text \<open>What a request, a load event and an elapsing timer do to the fields on display.\<close>

lemma timeout_fires_display:
  "currentSpa (timeout_fires i s) = currentSpa s"
  "navLinks (timeout_fires i s) = navLinks s"
  "document_title (timeout_fires i s) = document_title s"
  "metadata (timeout_fires i s) = metadata s"
  by (cases "timeouts s i";
      auto simp: timeout_fires_def run_callback_def showLoading_def hideLoading_def showError_def
        split: timer_callback.splits)+

lemma handleIframeLoad_display:
  "currentSpa (handleIframeLoad doc s) = currentSpa s"
  "navLinks (handleIframeLoad doc s) = navLinks s"
  "document_title (handleIframeLoad doc s) = document_title s"
  "metadata (handleIframeLoad doc s) = metadata s"
  by (cases "looks_not_found doc";
      simp add: handleIframeLoad_success handleIframeLoad_not_found)+



lemma loadSpa_browser:
  "shell_browser (loadSpa P x s) =
     (if js_lookup (spaRoutes (config s)) x = NoProperty then shell_browser s
      else snd (storage_set (json P) ''lastVisitedSpa'' (JSString x) (Some ''spa03'') (shell_browser s)))"
  by (simp add: loadSpa_unknown loadSpa_known NAMESPACE_spa03_def)

lemma loadSpa_currentSpa:
  "currentSpa (loadSpa P x s) =
     (if js_lookup (spaRoutes (config s)) x = NoProperty then currentSpa s else Some x)"
  by (simp add: loadSpa_unknown loadSpa_known)

section \<open>The shell: navigation requests\<close>

text \<open>
  Claim C1, as amended. A navigation request that reaches the shell through
  \<^verbatim>\<open>handleHashChange\<close> (browser back and forward) or through \<^verbatim>\<open>handleNavClick\<close>
  (a click on a navigation link) is ignored when its page is already
  \<^verbatim>\<open>state.currentSpa\<close>, whether or not an error is showing: the whole shell state is
  unchanged, so no timer is scheduled and nothing is written to the preference store.
\<close>

theorem hash_change_to_current_page_ignored:
  assumes "currentSpa s = Some x"
  shows "handleHashChange P x s = s
       \<and> handleNavClick x s = s
       \<and> timeouts (handleHashChange P x s) = timeouts s
       \<and> shell_browser (handleHashChange P x s) = shell_browser s"
  using assms by (simp add: handleHashChange_def handleNavClick_def)

text \<open>The loaded shell ignores a hash change and a link click for the page it shows.\<close>

theorem hash_change_to_current_page_ignored_witness:
  "currentSpa example_loaded = Some ''spa01''
   \<and> handleHashChange example_platform ''spa01'' example_loaded = example_loaded
   \<and> handleNavClick ''spa01'' example_loaded = example_loaded"
  using hash_change_to_current_page_ignored [of example_loaded "''spa01''" example_platform]
  by (simp add: example_loaded_fields)

text \<open>
  \<^verbatim>\<open>loadSpa\<close> itself, which \<^verbatim>\<open>retryLoadSpa\<close> and \<^verbatim>\<open>loadInitialSpa\<close> call
  directly, makes no such comparison: called for the page that is loaded and shows no
  error, it raises the loading flag again and schedules a new pair of timers.
\<close>

theorem loadSpa_current_page_counterexample:
  "currentSpa example_loaded = Some ''spa01''
   \<and> \<not> loading example_loaded \<and> \<not> errorDisplay_show example_loaded
   \<and> timeouts example_loaded = Map.empty
   \<and> loading (loadSpa example_platform ''spa01'' example_loaded)
   \<and> timeouts (loadSpa example_platform ''spa01'' example_loaded)
       = [3 \<mapsto> (ShowLoadingCallback, 300), 4 \<mapsto> (IframeTimeoutCallback, 10000)]
   \<and> loadSpa example_platform ''spa01'' example_loaded \<noteq> example_loaded"
proof -
  have known: "js_lookup (spaRoutes (config example_loaded)) ''spa01'' \<noteq> NoProperty"
    by (simp add: example_loaded_fields example_shell_fields example_routes_lookup)
  have l: "loading (loadSpa example_platform ''spa01'' example_loaded)"
    by (simp add: loadSpa_known [OF known])
  have t: "timeouts (loadSpa example_platform ''spa01'' example_loaded)
       = [3 \<mapsto> (ShowLoadingCallback, 300), 4 \<mapsto> (IframeTimeoutCallback, 10000)]"
    by (simp add: loadSpa_known [OF known] example_loaded_fields example_shell_fields
        clearTimeout_update fun_eq_iff)
  from l have "loadSpa example_platform ''spa01'' example_loaded \<noteq> example_loaded"
    using example_loaded_fields(2) by metis
  with l t show ?thesis by (simp add: example_loaded_fields)
qed

text \<open>
  An identifier that is neither a route nor a name inherited from
  \<^verbatim>\<open>Object.prototype\<close> is rejected: the error panel shows the
  \<^verbatim>\<open>unknown\<close> message with the identifier filled in, and the current page, the
  loading flag, the timers and the preference store are left as they were.
\<close>

lemma loadSpa_unknown_route:
  assumes "js_lookup (spaRoutes (config s)) x = NoProperty"
  shows "errorDisplay_show (loadSpa P x s)
       \<and> errorMessage_text (loadSpa P x s)
           = template (messages_unknown (metadata s)) (object_text P [''app'' \<mapsto> x])
       \<and> currentSpa (loadSpa P x s) = currentSpa s
       \<and> loading (loadSpa P x s) = loading s
       \<and> timeouts (loadSpa P x s) = timeouts s
       \<and> loadingTimeout (loadSpa P x s) = loadingTimeout s
       \<and> iframeLoadTimeout (loadSpa P x s) = iframeLoadTimeout s
       \<and> shell_browser (loadSpa P x s) = shell_browser s
       \<and> loadSpa P x s = showError (errorMessage_text (loadSpa P x s)) s"
  by (simp add: loadSpa_unknown [OF assms] showError_def)

text \<open>With the message of the sample shell, the identifier follows the colon.\<close>

lemma template_app:
  "template ''Unknown application: {app}'' (object_text P [''app'' \<mapsto> x]) = ''Unknown application: '' @ x"
  by (simp add: word_char_def object_text_def js_lookup_def)

lemma unknown_route_example:
  "errorMessage_text (loadSpa example_platform ''spa99'' example_shell)
     = ''Unknown application: spa99''"
proof -
  have "messages_unknown (metadata example_shell) = ''Unknown application: {app}''"
    by (simp add: example_shell_def)
  then show ?thesis
    by (simp only: loadSpa_unknown example_shell_fields example_routes_lookup template_app)
       simp
qed

text \<open>
  Claim C3 does not hold for every identifier outside the route table. The check
  \<^verbatim>\<open>!state.config.spaRoutes[spaId]\<close> also finds the members that every object
  inherits, so \<^verbatim>\<open>loadSpa('constructor')\<close> is not rejected: no error is shown, the
  identifier becomes the current page and the last visited page, timers are started and
  the frame is pointed at the text \<^verbatim>\<open>undefined\<close>.
\<close>

theorem loadSpa_inherited_name:
  "example_routes ''constructor'' = None
   \<and> currentSpa (loadSpa example_platform ''constructor'' example_shell) = Some ''constructor''
   \<and> loading (loadSpa example_platform ''constructor'' example_shell)
   \<and> \<not> errorDisplay_show (loadSpa example_platform ''constructor'' example_shell)
   \<and> contentFrame_src (loadSpa example_platform ''constructor'' example_shell) = ''undefined''
   \<and> timeouts (loadSpa example_platform ''constructor'' example_shell)
       = [1 \<mapsto> (ShowLoadingCallback, 300), 2 \<mapsto> (IframeTimeoutCallback, 10000)]
   \<and> localStorage_getItem ''spa03.lastVisitedSpa''
        (shell_browser (loadSpa example_platform ''constructor'' example_shell))
       = Inr (Some ([CHR 0x22] @ ''constructor'' @ [CHR 0x22]))"
proof -
  have known: "js_lookup (spaRoutes (config example_shell)) ''constructor'' \<noteq> NoProperty"
    by (simp add: example_shell_fields example_routes_lookup)
  have none: "example_routes ''constructor'' = None"
    by (simp add: example_routes_def)
  have stored: "localStorage_getItem ''spa03.lastVisitedSpa''
        (snd (storage_set (json example_platform) ''lastVisitedSpa'' (JSString ''constructor'')
               (Some NAMESPACE_spa03) empty_browser))
       = Inr (Some ([CHR 0x22] @ ''constructor'' @ [CHR 0x22]))"
    by (simp add: storage_set_def Let_def window_localStorage_def setItem_def empty_browser_def
        localStorage_getItem_def getItem_def finalKey_def NAMESPACE_spa03_def item_text_def
        example_platform_def ascii_json_def ascii_stringify_def plain_char_def)
  show ?thesis
    unfolding loadSpa_known [OF known]
    using none stored
    by (simp add: example_shell_fields example_routes_lookup clearTimeout_update fun_eq_iff)
qed

text \<open>
  Claim C4. Let the shell own its timers, and let \<open>a\<close> and \<open>b\<close> be routes. After
  \<^verbatim>\<open>loadSpa(a)\<close> the pending timeouts are exactly the two new ones, recorded in the
  state. Whatever events \<open>mid\<close> arrive before \<^verbatim>\<open>loadSpa(b)\<close> is called (none, when
  the second request follows immediately), \<^verbatim>\<open>loadSpa(b)\<close> first clears both recorded
  timers, which leaves no timeout pending, and then schedules its own pair: after the
  second call exactly the loading-indicator timer and the timeout timer of \<open>b\<close> are
  pending. Whatever happens afterwards, the two timers of \<open>a\<close> are never pending again,
  so they cannot fire.
\<close>

theorem superseding_navigation:
  assumes ra: "spaRoutes (config s) a = Some ra"
      and rb: "spaRoutes (config s) b = Some rb"
      and owned: "timers_owned s"
  shows "loadingTimeout (loadSpa P a s) = Some (timerCount s + 1)
       \<and> iframeLoadTimeout (loadSpa P a s) = Some (timerCount s + 2)
       \<and> dom (timeouts (loadSpa P a s)) = {timerCount s + 1, timerCount s + 2}
       \<and> (\<forall>mid.
             timerCount s + 2 \<le> timerCount (shell_run P mid (loadSpa P a s))
           \<and> timeouts (clearTimeout (iframeLoadTimeout (shell_run P mid (loadSpa P a s)))
                         (clearTimeout (loadingTimeout (shell_run P mid (loadSpa P a s)))
                            (shell_run P mid (loadSpa P a s)))) = Map.empty
           \<and> loadingTimeout (loadSpa P b (shell_run P mid (loadSpa P a s)))
               = Some (timerCount (shell_run P mid (loadSpa P a s)) + 1)
           \<and> iframeLoadTimeout (loadSpa P b (shell_run P mid (loadSpa P a s)))
               = Some (timerCount (shell_run P mid (loadSpa P a s)) + 2)
           \<and> timeouts (loadSpa P b (shell_run P mid (loadSpa P a s))) =
               [timerCount (shell_run P mid (loadSpa P a s)) + 1
                  \<mapsto> (ShowLoadingCallback, loadingDelay (config s)),
                timerCount (shell_run P mid (loadSpa P a s)) + 2
                  \<mapsto> (IframeTimeoutCallback, iframeTimeout (config s))]
           \<and> (\<forall>es. timeouts (shell_run P es (loadSpa P b (shell_run P mid (loadSpa P a s))))
                       (timerCount s + 1) = None
                  \<and> timeouts (shell_run P es (loadSpa P b (shell_run P mid (loadSpa P a s))))
                       (timerCount s + 2) = None
                  \<and> timeout_fires (timerCount s + 1)
                       (shell_run P es (loadSpa P b (shell_run P mid (loadSpa P a s))))
                      = shell_run P es (loadSpa P b (shell_run P mid (loadSpa P a s)))
                  \<and> timeout_fires (timerCount s + 2)
                       (shell_run P es (loadSpa P b (shell_run P mid (loadSpa P a s))))
                      = shell_run P es (loadSpa P b (shell_run P mid (loadSpa P a s)))))"
proof -
  let ?s1 = "loadSpa P a s"
  note first = loadSpa_fresh_pair [OF ra owned, of P]
  have owned1: "timers_owned ?s1"
    using owned by (rule loadSpa_owned)
  have later: "timerCount s + 2 \<le> timerCount (shell_run P mid ?s1)
           \<and> timeouts (clearTimeout (iframeLoadTimeout (shell_run P mid ?s1))
                         (clearTimeout (loadingTimeout (shell_run P mid ?s1))
                            (shell_run P mid ?s1))) = Map.empty
           \<and> loadingTimeout (loadSpa P b (shell_run P mid ?s1))
               = Some (timerCount (shell_run P mid ?s1) + 1)
           \<and> iframeLoadTimeout (loadSpa P b (shell_run P mid ?s1))
               = Some (timerCount (shell_run P mid ?s1) + 2)
           \<and> timeouts (loadSpa P b (shell_run P mid ?s1)) =
               [timerCount (shell_run P mid ?s1) + 1
                  \<mapsto> (ShowLoadingCallback, loadingDelay (config s)),
                timerCount (shell_run P mid ?s1) + 2
                  \<mapsto> (IframeTimeoutCallback, iframeTimeout (config s))]
           \<and> (\<forall>es. timeouts (shell_run P es (loadSpa P b (shell_run P mid ?s1)))
                       (timerCount s + 1) = None
                  \<and> timeouts (shell_run P es (loadSpa P b (shell_run P mid ?s1)))
                       (timerCount s + 2) = None
                  \<and> timeout_fires (timerCount s + 1)
                       (shell_run P es (loadSpa P b (shell_run P mid ?s1)))
                      = shell_run P es (loadSpa P b (shell_run P mid ?s1))
                  \<and> timeout_fires (timerCount s + 2)
                       (shell_run P es (loadSpa P b (shell_run P mid ?s1)))
                      = shell_run P es (loadSpa P b (shell_run P mid ?s1)))" for mid
  proof -
    let ?m = "shell_run P mid ?s1"
    let ?s2 = "loadSpa P b ?m"
    have ownedm: "timers_owned ?m"
      using owned1 by (rule run_owned)
    have cfg: "config ?m = config s"
      by (simp add: run_config loadSpa_config)
    have rbm: "spaRoutes (config ?m) b = Some rb"
      using rb by (simp add: cfg)
    note second = loadSpa_fresh_pair [OF rbm ownedm, of P]
    have count: "timerCount s + 2 \<le> timerCount ?m"
      using run_timerCount [of ?s1 P mid] first(3) by simp
    have t2: "timeouts ?s2 =
               [timerCount ?m + 1 \<mapsto> (ShowLoadingCallback, loadingDelay (config s)),
                timerCount ?m + 2 \<mapsto> (IframeTimeoutCallback, iframeTimeout (config s))]"
      using second(4) by (simp add: cfg)
    have gone1: "timeouts (shell_run P es ?s2) (timerCount s + 1) = None" for es
    proof (rule run_no_revival)
      show "timerCount s + 1 \<le> timerCount ?s2" using count second(3) by simp
      show "timeouts ?s2 (timerCount s + 1) = None" using count by (simp add: t2)
    qed
    have gone2: "timeouts (shell_run P es ?s2) (timerCount s + 2) = None" for es
    proof (rule run_no_revival)
      show "timerCount s + 2 \<le> timerCount ?s2" using count second(3) by simp
      show "timeouts ?s2 (timerCount s + 2) = None" using count by (simp add: t2)
    qed
    show ?thesis
      using count owned_cleared [OF ownedm] second(1,2) t2 gone1 gone2
      by (simp add: timeout_fires_cancelled)
  qed
  have "dom (timeouts ?s1) = {timerCount s + 1, timerCount s + 2}"
    unfolding first(4) by auto
  with first(1,2) later show ?thesis by blast
qed


text \<open>From the initial shell: the timers 1 and 2 of the first request are replaced by 3 and 4.\<close>

theorem superseding_navigation_witness:
  "timers_owned example_shell
   \<and> timeouts (loadSpa example_platform ''spa02'' (loadSpa example_platform ''spa01'' example_shell))
       = [3 \<mapsto> (ShowLoadingCallback, 300), 4 \<mapsto> (IframeTimeoutCallback, 10000)]
   \<and> timeouts (shell_run example_platform [TimeoutFires 1, TimeoutFires 2]
        (loadSpa example_platform ''spa02'' (loadSpa example_platform ''spa01'' example_shell))) 1 = None
   \<and> timeout_fires 2 (loadSpa example_platform ''spa02'' (loadSpa example_platform ''spa01'' example_shell))
       = loadSpa example_platform ''spa02'' (loadSpa example_platform ''spa01'' example_shell)"
proof -
  let ?s2 = "loadSpa example_platform ''spa02'' (loadSpa example_platform ''spa01'' example_shell)"
  have own: "timers_owned example_shell"
    by (simp add: timers_owned_def example_shell_def)
  have r1: "spaRoutes (config example_shell) ''spa01''
              = Some \<lparr>path = ''../spa01/spa01.html'', title = ''Hello World''\<rparr>"
    by (simp add: example_shell_def example_routes_def)
  have r2: "spaRoutes (config example_shell) ''spa02''
              = Some \<lparr>path = ''../spa02/spa02.html'', title = ''Multi-Language''\<rparr>"
    by (simp add: example_shell_def example_routes_def)
  have c1: "timerCount (loadSpa example_platform ''spa01'' example_shell) = 2"
    using loadSpa_fresh_pair(3) [OF r1 own, of example_platform]
    by (simp add: example_shell_fields)
  note later = superseding_navigation [OF r1 r2 own, of example_platform,
      THEN conjunct2, THEN conjunct2, THEN conjunct2, THEN spec, of "[]"]
  have a: "timeouts ?s2 = [3 \<mapsto> (ShowLoadingCallback, 300), 4 \<mapsto> (IframeTimeoutCallback, 10000)]"
    using later [THEN conjunct2, THEN conjunct2, THEN conjunct2, THEN conjunct2, THEN conjunct1]
    by (simp add: c1 example_shell_fields)
  note never = later [THEN conjunct2, THEN conjunct2, THEN conjunct2, THEN conjunct2, THEN conjunct2]
  have b: "timeouts (shell_run example_platform [TimeoutFires 1, TimeoutFires 2] ?s2) 1 = None"
    using never [THEN spec, of "[TimeoutFires 1, TimeoutFires 2]", THEN conjunct1]
    by (simp add: example_shell_fields)
  have c: "timeout_fires 2 ?s2 = ?s2"
    using never [THEN spec, of "[]", THEN conjunct2, THEN conjunct2, THEN conjunct2]
    by (simp add: example_shell_fields numeral_2_eq_2)
  from own a b c show ?thesis by simp
qed

text \<open>
  The shell owns its timers in every state it can reach from one that owns them, and a
  state without pending timeouts owns them.
\<close>

lemma reachable_timers_owned:
  assumes "timeouts s = Map.empty"
  shows "timers_owned (shell_run P es s)"
  by (rule run_owned) (simp add: timers_owned_def assms)

section \<open>The shell: how a navigation resolves\<close>

text \<open>
  The failure paths do not touch \<^verbatim>\<open>state.loading\<close>: the error handler, the
  not-found branch of the load handler (which returns before \<^verbatim>\<open>hideLoading()\<close> and
  \<^verbatim>\<open>state.loading = false\<close>) and both timer callbacks leave the flag as it is.
\<close>

lemma failure_keeps_loading:
  "loading (handleIframeError s) = loading s"
  "looks_not_found doc \<Longrightarrow> loading (handleIframeLoad doc s) = loading s"
  "looks_not_found doc \<Longrightarrow> loadingIndicator_show (handleIframeLoad doc s) = loadingIndicator_show s"
  "loading (timeout_fires i s) = loading s"
  apply (simp add: handleIframeError_update)
  apply (simp add: handleIframeLoad_not_found)
  apply (simp add: handleIframeLoad_not_found)
  apply (cases "timeouts s i")
  apply (simp add: timeout_fires_def)
  apply (simp add: timeout_fires_def run_callback_def showLoading_def hideLoading_def showError_def
      split: prod.splits timer_callback.splits)
  done

lemma example_navLinks:
  "navLinks example_shell =
     [\<lparr>data_spa = ''spa01'', active = False, aria_current = None\<rparr>,
      \<lparr>data_spa = ''spa02'', active = False, aria_current = None\<rparr>]"
  by (simp add: example_shell_def)

lemma example_navigating:
  "loadSpa example_platform ''spa01'' example_shell =
     example_shell\<lparr>currentSpa := Some ''spa01'', loading := True,
       loadingTimeout := Some 1, iframeLoadTimeout := Some 2,
       errorDisplay_show := False,
       navLinks := [\<lparr>data_spa = ''spa01'', active = True, aria_current = Some ''page''\<rparr>,
                    \<lparr>data_spa = ''spa02'', active = False, aria_current = None\<rparr>],
       document_title := ''Hello World - SPA Shell'',
       contentFrame_src := ''../spa01/spa01.html'',
       timeouts := [1 \<mapsto> (ShowLoadingCallback, 300), 2 \<mapsto> (IframeTimeoutCallback, 10000)],
       timerCount := 2,
       shell_browser := snd (storage_set (json example_platform) ''lastVisitedSpa'' (JSString ''spa01'')
                              (Some NAMESPACE_spa03) empty_browser)\<rparr>"
proof -
  have known: "js_lookup (spaRoutes (config example_shell)) ''spa01'' \<noteq> NoProperty"
    by (simp add: example_shell_fields example_routes_lookup)
  show ?thesis
    unfolding loadSpa_known [OF known]
    by (simp add: example_shell_fields example_routes_lookup clearTimeout_update
        numeral_2_eq_2 [symmetric] example_navLinks)
qed

text \<open>
  Claim C2 does not hold. After \<^verbatim>\<open>loadSpa('spa01')\<close>, the frame's error event, the
  timeout timer and a loaded page that reports an error each show the error panel but
  leave \<^verbatim>\<open>state.loading\<close> true; in the last case a loading indicator that was already
  showing stays visible. Only the successful load sets the flag to false.
\<close>

theorem loading_flag_after_failure:
  "loading (handleIframeError (loadSpa example_platform ''spa01'' example_shell))
   \<and> errorDisplay_show (handleIframeError (loadSpa example_platform ''spa01'' example_shell))
   \<and> loading (timeout_fires 2 (loadSpa example_platform ''spa01'' example_shell))
   \<and> errorDisplay_show (timeout_fires 2 (loadSpa example_platform ''spa01'' example_shell))
   \<and> loading (handleIframeLoad (Document ''Error'' []) (loadSpa example_platform ''spa01'' example_shell))
   \<and> errorDisplay_show
        (handleIframeLoad (Document ''Error'' []) (loadSpa example_platform ''spa01'' example_shell))
   \<and> loadingIndicator_show
        (handleIframeLoad (Document ''Error'' [])
           (timeout_fires 1 (loadSpa example_platform ''spa01'' example_shell)))
   \<and> \<not> loading (handleIframeLoad Inaccessible (loadSpa example_platform ''spa01'' example_shell))"
proof -
  have nf: "looks_not_found (Document ''Error'' [])"
    by (simp add: looks_not_found_def)
  have acc: "\<not> looks_not_found Inaccessible"
    by (simp add: looks_not_found_def)
  show ?thesis
    unfolding example_navigating
    by (simp add: handleIframeError_update handleIframeLoad_not_found [OF nf]
        handleIframeLoad_success [OF acc] timeout_fires_def run_callback_def
        showLoading_def hideLoading_def showError_def)
qed











section \<open>The shell: the last visited page\<close>

text \<open>
  The events that follow a request leave the browser and the current page alone. Every
  event is either a call of \<^verbatim>\<open>loadSpa\<close> or leaves both alone, and no event changes
  the policy of the browser. So with storage granted and no write refused, the stored
  page is that of \<^verbatim>\<open>state.currentSpa\<close> whenever its JSON text exists.
\<close>

lemma outcome_browser:
  assumes "follows_request e"
  shows "shell_browser (shell_step P e s) = shell_browser s"
  using assms
  by (cases e)
     (simp_all add: follows_request_def handleIframeLoad_fields handleIframeError_fields
        timeout_fires_fields)
lemma outcomes_browser:
  assumes "list_all follows_request es"
  shows "shell_browser (shell_run P es s) = shell_browser s"
  using assms by (induction es arbitrary: s) (simp_all add: outcome_browser)
lemma outcome_currentSpa:
  assumes "follows_request e"
  shows "currentSpa (shell_step P e s) = currentSpa s"
  using assms
  by (cases e)
     (simp_all add: follows_request_def handleIframeLoad_display(1) handleIframeError_update
        timeout_fires_display(1))

lemma outcomes_currentSpa:
  assumes "list_all follows_request es"
  shows "currentSpa (shell_run P es s) = currentSpa s"
  using assms by (induction es arbitrary: s) (simp_all add: outcome_currentSpa)

lemma step_request:
  "(\<exists>x. shell_step P e s = loadSpa P x s)
   \<or> currentSpa (shell_step P e s) = currentSpa s
      \<and> shell_browser (shell_step P e s) = shell_browser s"
proof (cases e)
  case (LoadSpa x)
  then show ?thesis by auto
next
  case (HashChange h)
  then show ?thesis by (auto simp: handleHashChange_def)
next
  case (NavClick x)
  then show ?thesis by (simp add: handleNavClick_def closeSidebar_def Let_def)
next
  case (IframeLoad doc)
  then show ?thesis by (simp add: handleIframeLoad_display(1) handleIframeLoad_fields)
next
  case IframeError
  then show ?thesis by (simp add: handleIframeError_update)
next
  case (TimeoutFires i)
  then show ?thesis by (simp add: timeout_fires_display(1) timeout_fires_fields)
next
  case RetryClick
  then show ?thesis by (auto simp: retryLoadSpa_def split: option.splits)
qed

lemma step_policy:
  "ls_denied (localStorage (shell_browser (shell_step P e s))) = ls_denied (localStorage (shell_browser s))"
  "ls_refuses (localStorage (shell_browser (shell_step P e s))) = ls_refuses (localStorage (shell_browser s))"
  by (cases e; simp add: loadSpa_browser storage_set_policy handleHashChange_def retryLoadSpa_def
        timeout_fires_fields handleIframeError_fields handleIframeLoad_fields handleNavClick_fields
        split: option.splits)+

lemma run_policy:
  "ls_denied (localStorage (shell_browser (shell_run P es s))) = ls_denied (localStorage (shell_browser s))"
  "ls_refuses (localStorage (shell_browser (shell_run P es s))) = ls_refuses (localStorage (shell_browser s))"
  by (induction es arbitrary: s) (simp_all add: step_policy)

lemma loadSpa_persists:
  assumes known: "js_lookup (spaRoutes (config s)) x \<noteq> NoProperty"
      and available: "\<not> ls_denied (localStorage (shell_browser s))"
      and room: "\<forall>items k w. \<not> ls_refuses (localStorage (shell_browser s)) items k w"
      and quoted: "JSON_stringify (json P) (JSString x) = Inr (Some t)"
  shows "localStorage_getItem ''spa03.lastVisitedSpa'' (shell_browser (loadSpa P x s)) = Inr (Some t)"
  using known available
  by (simp add: loadSpa_browser storage_set_item [OF available room quoted]
      localStorage_getItem_def window_localStorage_def getItem_def finalKey_def)

lemma step_persisted:
  assumes available: "\<not> ls_denied (localStorage (shell_browser s))"
      and room: "\<forall>items k w. \<not> ls_refuses (localStorage (shell_browser s)) items k w"
      and kept: "\<forall>y u. currentSpa s = Some y \<and> JSON_stringify (json P) (JSString y) = Inr (Some u)
                  \<longrightarrow> localStorage_getItem ''spa03.lastVisitedSpa'' (shell_browser s) = Inr (Some u)"
  shows "\<forall>y u. currentSpa (shell_step P e s) = Some y
                  \<and> JSON_stringify (json P) (JSString y) = Inr (Some u)
            \<longrightarrow> localStorage_getItem ''spa03.lastVisitedSpa'' (shell_browser (shell_step P e s))
                  = Inr (Some u)"
proof -
  have request: "\<forall>y u. currentSpa (loadSpa P x s) = Some y
                  \<and> JSON_stringify (json P) (JSString y) = Inr (Some u)
            \<longrightarrow> localStorage_getItem ''spa03.lastVisitedSpa'' (shell_browser (loadSpa P x s))
                  = Inr (Some u)" for x
  proof (cases "js_lookup (spaRoutes (config s)) x = NoProperty")
    case True
    with kept show ?thesis by (simp add: loadSpa_browser loadSpa_currentSpa)
  next
    case False
    then show ?thesis
      using loadSpa_persists [OF False available room] by (simp add: loadSpa_currentSpa)
  qed
  from step_request [of P e s] show ?thesis
  proof (elim disjE exE conjE)
    fix x
    assume "shell_step P e s = loadSpa P x s"
    with request [of x] show ?thesis by simp
  next
    assume "currentSpa (shell_step P e s) = currentSpa s"
      and "shell_browser (shell_step P e s) = shell_browser s"
    with kept show ?thesis by simp
  qed
qed

lemma run_persisted:
  assumes "\<not> ls_denied (localStorage (shell_browser s))"
      and "\<forall>items k w. \<not> ls_refuses (localStorage (shell_browser s)) items k w"
      and "\<forall>y u. currentSpa s = Some y \<and> JSON_stringify (json P) (JSString y) = Inr (Some u)
                  \<longrightarrow> localStorage_getItem ''spa03.lastVisitedSpa'' (shell_browser s) = Inr (Some u)"
  shows "\<forall>y u. currentSpa (shell_run P es s) = Some y
                  \<and> JSON_stringify (json P) (JSString y) = Inr (Some u)
            \<longrightarrow> localStorage_getItem ''spa03.lastVisitedSpa'' (shell_browser (shell_run P es s))
                  = Inr (Some u)"
  using assms
proof (induction es arbitrary: s)
  case Nil
  then show ?case by simp
next
  case (Cons e es)
  have "\<forall>y u. currentSpa (shell_run P es (shell_step P e s)) = Some y
                  \<and> JSON_stringify (json P) (JSString y) = Inr (Some u)
            \<longrightarrow> localStorage_getItem ''spa03.lastVisitedSpa''
                   (shell_browser (shell_run P es (shell_step P e s))) = Inr (Some u)"
  proof (rule Cons.IH)
    show "\<not> ls_denied (localStorage (shell_browser (shell_step P e s)))"
      using Cons.prems(1) by (simp add: step_policy)
    show "\<forall>items k w. \<not> ls_refuses (localStorage (shell_browser (shell_step P e s))) items k w"
      using Cons.prems(2) by (simp add: step_policy)
    show "\<forall>y u. currentSpa (shell_step P e s) = Some y
                  \<and> JSON_stringify (json P) (JSString y) = Inr (Some u)
            \<longrightarrow> localStorage_getItem ''spa03.lastVisitedSpa'' (shell_browser (shell_step P e s))
                  = Inr (Some u)"
      using Cons.prems by (rule step_persisted)
  qed
  then show ?case by simp
qed

lemma full_shell_fields:
  "config full_shell = config example_shell"
  "shell_browser full_shell = full_browser"
  "currentSpa full_shell = Some ''spa01''"
  by (simp_all add: full_shell_def example_loaded_fields)

lemma denied_shell_fields:
  "config denied_shell = config example_shell"
  "shell_browser denied_shell = denying_browser"
  by (simp_all add: denied_shell_def)

text \<open>
  Claim C9, as amended. For a route \<open>x\<close>, \<^verbatim>\<open>loadSpa(x)\<close> hands \<open>x\<close> to
  \<^verbatim>\<open>Utils.storage.set('lastVisitedSpa', x, 'spa03')\<close> while the load is still
  pending, and the events that resolve a navigation (load, error, timers) change neither
  the current page nor the store nor the console. The write is best-effort. When the
  browser accepts it, the item \<^verbatim>\<open>spa03.lastVisitedSpa\<close> holds the JSON text of \<open>x\<close>
  after the request and after any number of such events. When it fails, one
  \<^verbatim>\<open>console.error\<close> line is logged and the store stays as it was. In a browser that
  grants storage and refuses no write the item follows every later request: after any
  events, a request for a route \<open>y\<close> and its resolution the item holds the JSON text of
  \<open>y\<close>; and after any events at all it holds the JSON text of
  \<^verbatim>\<open>state.currentSpa\<close>, the page of the most recent request that
  \<^verbatim>\<open>loadSpa\<close> accepted.
\<close>

theorem lastVisited_written_at_request:
  assumes route: "spaRoutes (config s) x = Some r"
  shows "shell_browser (loadSpa P x s)
           = snd (storage_set (json P) ''lastVisitedSpa'' (JSString x) (Some ''spa03'')
                    (shell_browser s))
       \<and> loading (loadSpa P x s)
       \<and> (\<forall>es. list_all follows_request es \<longrightarrow>
             currentSpa (shell_run P es (loadSpa P x s)) = Some x
           \<and> shell_browser (shell_run P es (loadSpa P x s)) = shell_browser (loadSpa P x s))
       \<and> (window_localStorage (shell_browser s) = Inr ls
            \<and> JSON_stringify (json P) (JSString x) = Inr (Some t)
            \<and> \<not> ls_refuses ls (ls_items ls) ''spa03.lastVisitedSpa'' t
          \<longrightarrow> (\<forall>es. list_all follows_request es \<longrightarrow>
                 localStorage_getItem ''spa03.lastVisitedSpa''
                   (shell_browser (shell_run P es (loadSpa P x s))) = Inr (Some t)))
       \<and> (\<not> fst (storage_set (json P) ''lastVisitedSpa'' (JSString x) (Some ''spa03'')
                    (shell_browser s))
          \<longrightarrow> (\<exists>e. shell_browser (loadSpa P x s)
                     = console_error ''Error saving to localStorage:'' (Some (ErrorArg e))
                         (shell_browser s))
            \<and> (\<forall>es. list_all follows_request es \<longrightarrow>
                 localStorage (shell_browser (shell_run P es (loadSpa P x s)))
                   = localStorage (shell_browser s)))
       \<and> (\<not> ls_denied (localStorage (shell_browser s))
            \<and> (\<forall>items k w. \<not> ls_refuses (localStorage (shell_browser s)) items k w)
          \<longrightarrow> (\<forall>mid y ry u es.
                 spaRoutes (config s) y = Some ry
               \<and> JSON_stringify (json P) (JSString y) = Inr (Some u)
               \<and> list_all follows_request es
               \<longrightarrow> currentSpa (shell_run P es (loadSpa P y (shell_run P mid (loadSpa P x s)))) = Some y
                 \<and> localStorage_getItem ''spa03.lastVisitedSpa''
                     (shell_browser (shell_run P es (loadSpa P y (shell_run P mid (loadSpa P x s)))))
                     = Inr (Some u))
            \<and> (\<forall>es y u.
                 currentSpa (shell_run P es (loadSpa P x s)) = Some y
               \<and> JSON_stringify (json P) (JSString y) = Inr (Some u)
               \<longrightarrow> localStorage_getItem ''spa03.lastVisitedSpa''
                     (shell_browser (shell_run P es (loadSpa P x s))) = Inr (Some u)))"
proof -
  have known: "js_lookup (spaRoutes (config s)) x \<noteq> NoProperty"
    using own_route_known [OF route] by simp
  have written: "shell_browser (loadSpa P x s)
           = snd (storage_set (json P) ''lastVisitedSpa'' (JSString x) (Some ''spa03'')
                    (shell_browser s))"
    using known by (simp add: loadSpa_browser)
  have flag: "loading (loadSpa P x s)"
    by (simp add: loadSpa_known [OF known])
  have kept: "currentSpa (shell_run P es (loadSpa P x s)) = Some x
           \<and> shell_browser (shell_run P es (loadSpa P x s)) = shell_browser (loadSpa P x s)"
    if "list_all follows_request es" for es
    using that known by (simp add: outcomes_browser outcomes_currentSpa loadSpa_currentSpa)
  have stored: "localStorage_getItem ''spa03.lastVisitedSpa''
                   (shell_browser (shell_run P es (loadSpa P x s))) = Inr (Some t)"
    if "window_localStorage (shell_browser s) = Inr ls"
      and "JSON_stringify (json P) (JSString x) = Inr (Some t)"
      and "\<not> ls_refuses ls (ls_items ls) ''spa03.lastVisitedSpa'' t"
      and "list_all follows_request es" for es
  proof -
    have "localStorage_getItem ''spa03.lastVisitedSpa'' (shell_browser (loadSpa P x s)) = Inr (Some t)"
      using that(1,2,3) unfolding written
      by (auto simp: storage_set_def Let_def setItem_def finalKey_def item_text_def
          localStorage_getItem_def window_localStorage_def getItem_def split: if_splits)
    with kept [OF that(4)] show ?thesis by simp
  qed
  have failed: "(\<exists>e. shell_browser (loadSpa P x s)
                     = console_error ''Error saving to localStorage:'' (Some (ErrorArg e))
                         (shell_browser s))
            \<and> (\<forall>es. list_all follows_request es \<longrightarrow>
                 localStorage (shell_browser (shell_run P es (loadSpa P x s)))
                   = localStorage (shell_browser s))"
    if "\<not> fst (storage_set (json P) ''lastVisitedSpa'' (JSString x) (Some ''spa03'')
                    (shell_browser s))"
  proof -
    from that have "storage_set (json P) ''lastVisitedSpa'' (JSString x) (Some ''spa03'') (shell_browser s)
        = (False, shell_browser (loadSpa P x s))"
      unfolding written
      by (cases "storage_set (json P) ''lastVisitedSpa'' (JSString x) (Some ''spa03'') (shell_browser s)")
         simp
    from storage_set_False [OF this] obtain e where
      e: "shell_browser (loadSpa P x s)
            = console_error ''Error saving to localStorage:'' (Some (ErrorArg e)) (shell_browser s)"
      by blast
    then have "localStorage (shell_browser (loadSpa P x s)) = localStorage (shell_browser s)"
      by (simp add: console_error_def)
    with e kept show ?thesis by auto
  qed
  have superseded: "currentSpa (shell_run P es (loadSpa P y (shell_run P mid (loadSpa P x s)))) = Some y
                 \<and> localStorage_getItem ''spa03.lastVisitedSpa''
                     (shell_browser (shell_run P es (loadSpa P y (shell_run P mid (loadSpa P x s)))))
                     = Inr (Some u)"
    if available: "\<not> ls_denied (localStorage (shell_browser s))"
      and room: "\<forall>items k w. \<not> ls_refuses (localStorage (shell_browser s)) items k w"
      and other: "spaRoutes (config s) y = Some ry"
      and quoted: "JSON_stringify (json P) (JSString y) = Inr (Some u)"
      and es: "list_all follows_request es" for mid y ry u es
  proof -
    let ?s1 = "shell_run P (LoadSpa x # mid) s"
    have s1: "?s1 = shell_run P mid (loadSpa P x s)" by simp
    have cfg: "config ?s1 = config s" by (rule run_config)
    have known1: "js_lookup (spaRoutes (config ?s1)) y \<noteq> NoProperty"
      unfolding cfg using own_route_known [OF other] by simp
    have available1: "\<not> ls_denied (localStorage (shell_browser ?s1))"
      using available unfolding run_policy .
    have room1: "\<forall>items k w. \<not> ls_refuses (localStorage (shell_browser ?s1)) items k w"
      using room unfolding run_policy .
    have "localStorage_getItem ''spa03.lastVisitedSpa'' (shell_browser (loadSpa P y ?s1)) = Inr (Some u)"
      using known1 available1 room1 quoted by (rule loadSpa_persists)
    moreover have "currentSpa (loadSpa P y ?s1) = Some y"
      using known1 by (simp only: loadSpa_currentSpa if_False)
    ultimately show ?thesis
      unfolding s1 by (simp add: outcomes_browser [OF es] outcomes_currentSpa [OF es])
  qed
  have current: "localStorage_getItem ''spa03.lastVisitedSpa''
                     (shell_browser (shell_run P es (loadSpa P x s))) = Inr (Some u)"
    if available: "\<not> ls_denied (localStorage (shell_browser s))"
      and room: "\<forall>items k w. \<not> ls_refuses (localStorage (shell_browser s)) items k w"
      and cur: "currentSpa (shell_run P es (loadSpa P x s)) = Some y"
      and quoted: "JSON_stringify (json P) (JSString y) = Inr (Some u)" for es y u
  proof -
    let ?s1 = "loadSpa P x s"
    have available1: "\<not> ls_denied (localStorage (shell_browser ?s1))"
      using available step_policy(1) [of P "LoadSpa x" s] by simp
    have room1: "\<forall>items k w. \<not> ls_refuses (localStorage (shell_browser ?s1)) items k w"
      using room step_policy(2) [of P "LoadSpa x" s] by simp
    have inv1: "\<forall>y u. currentSpa ?s1 = Some y \<and> JSON_stringify (json P) (JSString y) = Inr (Some u)
                  \<longrightarrow> localStorage_getItem ''spa03.lastVisitedSpa'' (shell_browser ?s1) = Inr (Some u)"
      using loadSpa_persists [OF known available room] known by (simp add: loadSpa_currentSpa)
    from run_persisted [OF available1 room1 inv1, of es] cur quoted show ?thesis by blast
  qed
  from written flag kept stored failed superseded current show ?thesis by blast
qed

text \<open>
  The second page is requested, both timers fire and the frame reports an error: the
  stored page is still the second page. When the first page is requested while the second
  is loading, the stored page is the first, also after the frame has reported an error.
  In the browser whose store is full the request for the second page fails to write, and
  the store is what it was.
\<close>

theorem lastVisited_written_at_request_witness:
  "spaRoutes (config example_shell) ''spa02''
      = Some \<lparr>path = ''../spa02/spa02.html'', title = ''Multi-Language''\<rparr>
   \<and> list_all follows_request [TimeoutFires 1, TimeoutFires 2, IframeError]
   \<and> localStorage_getItem ''spa03.lastVisitedSpa''
        (shell_browser (shell_run example_platform [TimeoutFires 1, TimeoutFires 2, IframeError]
           (loadSpa example_platform ''spa02'' example_shell)))
       = Inr (Some ([CHR 0x22] @ ''spa02'' @ [CHR 0x22]))
   \<and> localStorage_getItem ''spa03.lastVisitedSpa''
        (shell_browser (shell_run example_platform [IframeError]
           (loadSpa example_platform ''spa01''
              (shell_run example_platform [TimeoutFires 1, NavClick ''spa01'']
                 (loadSpa example_platform ''spa02'' example_shell)))))
       = Inr (Some ([CHR 0x22] @ ''spa01'' @ [CHR 0x22]))
   \<and> spaRoutes (config full_shell) ''spa02''
      = Some \<lparr>path = ''../spa02/spa02.html'', title = ''Multi-Language''\<rparr>
   \<and> \<not> fst (storage_set (json example_platform) ''lastVisitedSpa'' (JSString ''spa02'')
              (Some ''spa03'') (shell_browser full_shell))
   \<and> localStorage (shell_browser (shell_run example_platform [IframeError]
           (loadSpa example_platform ''spa02'' full_shell)))
       = localStorage full_browser"
proof -
  have route: "spaRoutes (config example_shell) ''spa02''
      = Some \<lparr>path = ''../spa02/spa02.html'', title = ''Multi-Language''\<rparr>"
    by (simp add: example_shell_fields example_routes_def)
  have other: "spaRoutes (config example_shell) ''spa01''
      = Some \<lparr>path = ''../spa01/spa01.html'', title = ''Hello World''\<rparr>"
    by (simp add: example_shell_fields example_routes_def)
  have res: "list_all follows_request [TimeoutFires 1, TimeoutFires 2, IframeError]"
    by (simp add: follows_request_def)
  have res1: "list_all follows_request [IframeError]"
    by (simp add: follows_request_def)
  have store: "window_localStorage (shell_browser example_shell) = Inr (localStorage empty_browser)"
    by (simp add: example_shell_fields window_localStorage_def empty_browser_def)
  have quoted: "JSON_stringify (json example_platform) (JSString ''spa02'')
                = Inr (Some ([CHR 0x22] @ ''spa02'' @ [CHR 0x22]))"
    by (simp add: example_platform_def ascii_json_def ascii_stringify_def plain_char_def)
  have quoted1: "JSON_stringify (json example_platform) (JSString ''spa01'')
                = Inr (Some ([CHR 0x22] @ ''spa01'' @ [CHR 0x22]))"
    by (simp add: example_platform_def ascii_json_def ascii_stringify_def plain_char_def)
  have room: "\<not> ls_refuses (localStorage empty_browser) (ls_items (localStorage empty_browser))
                  ''spa03.lastVisitedSpa'' ([CHR 0x22] @ ''spa02'' @ [CHR 0x22])"
    by (simp add: empty_browser_def)
  have available: "\<not> ls_denied (localStorage (shell_browser example_shell))"
    by (simp add: example_shell_fields empty_browser_def)
  have never: "\<forall>items k w. \<not> ls_refuses (localStorage (shell_browser example_shell)) items k w"
    by (simp add: example_shell_fields empty_browser_def)
  note th = lastVisited_written_at_request [OF route, of example_platform "localStorage empty_browser"
      "[CHR 0x22] @ ''spa02'' @ [CHR 0x22]"]
  from th store quoted room res
  have first: "localStorage_getItem ''spa03.lastVisitedSpa''
        (shell_browser (shell_run example_platform [TimeoutFires 1, TimeoutFires 2, IframeError]
           (loadSpa example_platform ''spa02'' example_shell)))
       = Inr (Some ([CHR 0x22] @ ''spa02'' @ [CHR 0x22]))"
    by blast
  from th available never other quoted1 res1
  have second: "localStorage_getItem ''spa03.lastVisitedSpa''
        (shell_browser (shell_run example_platform [IframeError]
           (loadSpa example_platform ''spa01''
              (shell_run example_platform [TimeoutFires 1, NavClick ''spa01'']
                 (loadSpa example_platform ''spa02'' example_shell)))))
       = Inr (Some ([CHR 0x22] @ ''spa01'' @ [CHR 0x22]))"
    by blast
  have route': "spaRoutes (config full_shell) ''spa02''
      = Some \<lparr>path = ''../spa02/spa02.html'', title = ''Multi-Language''\<rparr>"
    by (simp add: full_shell_fields example_shell_fields example_routes_def)
  have refused: "\<not> fst (storage_set (json example_platform) ''lastVisitedSpa'' (JSString ''spa02'')
              (Some ''spa03'') (shell_browser full_shell))"
    by (simp add: full_shell_fields storage_set_def Let_def window_localStorage_def setItem_def
        full_browser_def example_platform_def ascii_json_def ascii_stringify_def plain_char_def)
  from lastVisited_written_at_request [OF route', of example_platform] refused res1
  have "localStorage (shell_browser (shell_run example_platform [IframeError]
           (loadSpa example_platform ''spa02'' full_shell)))
       = localStorage (shell_browser full_shell)"
    by blast
  then have third: "localStorage (shell_browser (shell_run example_platform [IframeError]
           (loadSpa example_platform ''spa02'' full_shell)))
       = localStorage full_browser"
    by (simp add: full_shell_fields)
  from route res first second route' refused third show ?thesis by blast
qed

text \<open>
  The claim as stated fails when the write is not accepted. In the browser whose store is
  full, the shell loaded on the first page is asked for the second: the second is the
  current page, but the stored last visited page is still the first. In the browser that
  denies storage nothing is stored at all.
\<close>

theorem lastVisited_written_at_request_counterexample:
  "spaRoutes (config full_shell) ''spa02''
      = Some \<lparr>path = ''../spa02/spa02.html'', title = ''Multi-Language''\<rparr>
   \<and> currentSpa (loadSpa example_platform ''spa02'' full_shell) = Some ''spa02''
   \<and> localStorage_getItem ''spa03.lastVisitedSpa''
        (shell_browser (loadSpa example_platform ''spa02'' full_shell))
       = Inr (Some ([CHR 0x22] @ ''spa01'' @ [CHR 0x22]))
   \<and> fst (storage_get (json example_platform) ''lastVisitedSpa'' JSNull (Some ''spa03'')
        (shell_browser (loadSpa example_platform ''spa02'' full_shell)))
       = JSString ''spa01''
   \<and> currentSpa (loadSpa example_platform ''spa02'' denied_shell) = Some ''spa02''
   \<and> ls_items (localStorage (shell_browser (loadSpa example_platform ''spa02'' denied_shell)))
        ''spa03.lastVisitedSpa'' = None"
proof -
  have known: "js_lookup (spaRoutes (config full_shell)) ''spa02'' \<noteq> NoProperty"
    by (simp add: full_shell_fields example_shell_fields example_routes_lookup)
  have known': "js_lookup (spaRoutes (config denied_shell)) ''spa02'' \<noteq> NoProperty"
    by (simp add: denied_shell_fields example_shell_fields example_routes_lookup)
  have quoted: "JSON_stringify (json example_platform) (JSString ''spa02'')
                = Inr (Some ([CHR 0x22] @ ''spa02'' @ [CHR 0x22]))"
    by (simp add: example_platform_def ascii_json_def ascii_stringify_def plain_char_def)
  have refused: "shell_browser (loadSpa example_platform ''spa02'' full_shell)
      = console_error ''Error saving to localStorage:'' (Some (ErrorArg QuotaExceededError)) full_browser"
    using known quoted
    by (simp add: loadSpa_browser full_shell_fields storage_set_def Let_def window_localStorage_def
        setItem_def full_browser_def)
  have denied: "shell_browser (loadSpa example_platform ''spa02'' denied_shell)
      = console_error ''Error saving to localStorage:'' (Some (ErrorArg SecurityError)) denying_browser"
    using known'
    by (simp add: loadSpa_browser denied_shell_fields storage_set_def Let_def window_localStorage_def
        denying_browser_def)
  have parsed: "JSON_parse (json example_platform) ([CHR 0x22] @ ''spa01'' @ [CHR 0x22])
                  = Inr (JSString ''spa01'')"
    by (simp add: example_platform_def ascii_json_def ascii_parse_def plain_char_def)
  show ?thesis
    unfolding refused denied
    using known known' parsed
    by (simp add: full_shell_fields example_shell_fields example_routes_def loadSpa_currentSpa
        localStorage_getItem_def window_localStorage_def getItem_def console_error_def
        full_browser_def denying_browser_def storage_get_def Let_def finalKey_def)
qed

section \<open>The cycler: what each function writes\<close>

lemma findIndex_from_none:
  "find test xs = None \<Longrightarrow> findIndex_from k test xs = - 1"
  by (induction xs arbitrary: k) (auto split: if_splits)

lemma findIndex_from_some:
  "find test xs = Some x \<Longrightarrow>
     k \<le> findIndex_from k test xs \<and> findIndex_from k test xs < k + int (length xs)
     \<and> xs ! nat (findIndex_from k test xs - k) = x
     \<and> (\<forall>j < nat (findIndex_from k test xs - k). \<not> test (xs ! j))"
proof (induction xs arbitrary: k)
  case Nil
  then show ?case by simp
next
  case (Cons y ys)
  show ?case
  proof (cases "test y")
    case True
    with Cons.prems show ?thesis by simp
  next
    case False
    with Cons.prems have f: "find test ys = Some x" by simp
    note ih = Cons.IH [OF f, of "k + 1"]
    have step: "findIndex_from k test (y # ys) = findIndex_from (k + 1) test ys"
      using False by simp
    have pos: "nat (findIndex_from (k + 1) test ys - k) = Suc (nat (findIndex_from (k + 1) test ys - (k + 1)))"
      using ih by linarith
    show ?thesis
      unfolding step pos using ih False
      by (auto simp: less_Suc_eq_0_disj)
  qed
qed

lemma findIndex_none: "find test xs = None \<Longrightarrow> findIndex test xs = - 1"
  by (simp add: findIndex_def findIndex_from_none)

lemma findIndex_some:
  assumes "find test xs = Some x"
  shows "0 \<le> findIndex test xs" and "findIndex test xs < int (length xs)"
    and "xs ! nat (findIndex test xs) = x"
    and "\<forall>j < nat (findIndex test xs). \<not> test (xs ! j)"
  using findIndex_from_some [OF assms, of 0] by (simp_all add: findIndex_def)


lemma stopCycling_update:
  "stopCycling s =
     s\<lparr>cycleInterval := (case cycleInterval s of
                            None \<Rightarrow> None
                          | Some i \<Rightarrow> if i \<noteq> 0 then None else Some i),
       intervals := (case cycleInterval s of
                       None \<Rightarrow> intervals s
                     | Some i \<Rightarrow> if i \<noteq> 0 then (intervals s)(i := None) else intervals s),
       isCycling := False,
       status_text := content_status_manual s,
       status_cycling := False\<rparr>"
  by (cases "cycleInterval s")
     (simp_all add: stopCycling_def clearInterval_def Let_def cong: if_cong)

lemma startCycling_update:
  "startCycling s =
     s\<lparr>cycleInterval := Some (Suc (intervalCount s)),
       intervals := (case cycleInterval s of
                       None \<Rightarrow> intervals s
                     | Some i \<Rightarrow> if i \<noteq> 0 then (intervals s)(i := None) else intervals s)
                    (Suc (intervalCount s) \<mapsto> speedSlider_value s),
       intervalCount := Suc (intervalCount s),
       isCycling := True,
       status_text := content_status_cycling s,
       status_cycling := True\<rparr>"
  by (cases "cycleInterval s")
     (simp_all add: startCycling_def setInterval_def clearInterval_def Let_def cong: if_cong)

lemma saveToStorage_update:
  "saveToStorage P s =
     s\<lparr>cycler_browser :=
         snd (storage_set (json P) ''cycleSpeed'' (JSString (speedSlider_value s)) (Some ''spa02'')
           (snd (storage_set (json P) ''selectedLanguage'' (JSString (languageSelect_value s))
              (Some ''spa02'') (cycler_browser s))))\<rparr>"
  by (simp add: saveToStorage_def Let_def NAMESPACE_spa02_def)

lemma updateGreeting_listed:
  "find (\<lambda>l. code l = c) (languages s) = Some lang \<Longrightarrow>
     updateGreeting c s = s\<lparr>greeting_text := greeting lang, greeting_rtl := rtl lang\<rparr>"
  by (simp add: updateGreeting_def)

lemma updateGreeting_unlisted:
  "find (\<lambda>l. code l = c) (languages s) = None \<Longrightarrow>
     updateGreeting c s =
       s\<lparr>cycler_browser := debug_error ''Invalid language code:'' c (cycler_browser s)\<rparr>"
  by (simp add: updateGreeting_def)


lemma storage_set_accepted:
  assumes "window_localStorage b = Inr ls"
      and "JSON_stringify J v = Inr (Some t)"
      and "\<not> ls_refuses ls (ls_items ls) (finalKey ns key) t"
  shows "storage_set J key v ns b =
           (True, b\<lparr>localStorage := ls\<lparr>ls_items := (ls_items ls)(finalKey ns key \<mapsto> t)\<rparr>\<rparr>)"
  using assms by (simp add: storage_set_def Let_def setItem_def item_text_def)

lemma storage_set_console:
  "\<exists>rest. console_errors (snd (storage_set J key v ns b)) = console_errors b @ rest"
  by (auto simp: storage_set_def Let_def console_error_def split: sum.splits)

lemma saved_items:
  assumes store: "window_localStorage b = Inr ls"
      and tc: "JSON_stringify J (JSString c) = Inr (Some tc)"
      and ts: "JSON_stringify J (JSString v) = Inr (Some ts)"
      and room: "\<forall>items k w. \<not> ls_refuses ls items k w"
  shows "localStorage_getItem ''spa02.selectedLanguage''
           (snd (storage_set J ''cycleSpeed'' (JSString v) (Some ''spa02'')
              (snd (storage_set J ''selectedLanguage'' (JSString c) (Some ''spa02'') b))))
           = Inr (Some tc)"
    and "localStorage_getItem ''spa02.cycleSpeed''
           (snd (storage_set J ''cycleSpeed'' (JSString v) (Some ''spa02'')
              (snd (storage_set J ''selectedLanguage'' (JSString c) (Some ''spa02'') b))))
           = Inr (Some ts)"
proof -
  let ?ls1 = "ls\<lparr>ls_items := (ls_items ls)(finalKey (Some ''spa02'') ''selectedLanguage'' \<mapsto> tc)\<rparr>"
  let ?b1 = "b\<lparr>localStorage := ?ls1\<rparr>"
  have first: "storage_set J ''selectedLanguage'' (JSString c) (Some ''spa02'') b = (True, ?b1)"
    using store tc room by (intro storage_set_accepted) auto
  have denied: "\<not> ls_denied ls"
    using store by (auto simp: window_localStorage_def split: if_splits)
  have same: "localStorage b = ls"
    using store by (auto simp: window_localStorage_def split: if_splits)
  have store1: "window_localStorage ?b1 = Inr ?ls1"
    using denied by (simp add: window_localStorage_def)
  have second: "storage_set J ''cycleSpeed'' (JSString v) (Some ''spa02'') ?b1 =
      (True, ?b1\<lparr>localStorage := ?ls1\<lparr>ls_items := (ls_items ?ls1)(finalKey (Some ''spa02'') ''cycleSpeed'' \<mapsto> ts)\<rparr>\<rparr>)"
    using store1 ts room by (intro storage_set_accepted) auto
  show "localStorage_getItem ''spa02.selectedLanguage''
           (snd (storage_set J ''cycleSpeed'' (JSString v) (Some ''spa02'')
              (snd (storage_set J ''selectedLanguage'' (JSString c) (Some ''spa02'') b))))
           = Inr (Some tc)"
    unfolding first snd_conv second using denied
    by (simp add: localStorage_getItem_def window_localStorage_def getItem_def finalKey_def)
  show "localStorage_getItem ''spa02.cycleSpeed''
           (snd (storage_set J ''cycleSpeed'' (JSString v) (Some ''spa02'')
              (snd (storage_set J ''selectedLanguage'' (JSString c) (Some ''spa02'') b))))
           = Inr (Some ts)"
    unfolding first snd_conv second using denied
    by (simp add: localStorage_getItem_def window_localStorage_def getItem_def finalKey_def)
qed

lemma languageSelect_change_listed:
  assumes "find (\<lambda>l. code l = c) (languages s) = Some lang"
  shows "languageSelect_change P c (s\<lparr>languageSelect_value := c\<rparr>) =
     s\<lparr>languageSelect_value := c,
       cycleInterval := (case cycleInterval s of
                            None \<Rightarrow> None
                          | Some i \<Rightarrow> if i \<noteq> 0 then None else Some i),
       intervals := (case cycleInterval s of
                       None \<Rightarrow> intervals s
                     | Some i \<Rightarrow> if i \<noteq> 0 then (intervals s)(i := None) else intervals s),
       isCycling := False,
       status_text := content_status_manual s,
       status_cycling := False,
       greeting_text := greeting lang, greeting_rtl := rtl lang,
       cycler_browser :=
         snd (storage_set (json P) ''cycleSpeed'' (JSString (speedSlider_value s)) (Some ''spa02'')
           (snd (storage_set (json P) ''selectedLanguage'' (JSString c)
              (Some ''spa02'') (cycler_browser s)))),
       currentIndex := findIndex (\<lambda>l. code l = c) (languages s)\<rparr>"
  using assms
  by (simp add: languageSelect_change_def Let_def stopCycling_update updateGreeting_listed
      saveToStorage_update cong: if_cong option.case_cong)

lemma languageSelect_change_unlisted:
  assumes "find (\<lambda>l. code l = c) (languages s) = None"
  shows "languageSelect_change P c (s\<lparr>languageSelect_value := c\<rparr>) =
     s\<lparr>languageSelect_value := c,
       cycleInterval := (case cycleInterval s of
                            None \<Rightarrow> None
                          | Some i \<Rightarrow> if i \<noteq> 0 then None else Some i),
       intervals := (case cycleInterval s of
                       None \<Rightarrow> intervals s
                     | Some i \<Rightarrow> if i \<noteq> 0 then (intervals s)(i := None) else intervals s),
       isCycling := False,
       status_text := content_status_manual s,
       status_cycling := False,
       cycler_browser :=
         snd (storage_set (json P) ''cycleSpeed'' (JSString (speedSlider_value s)) (Some ''spa02'')
           (snd (storage_set (json P) ''selectedLanguage'' (JSString c)
              (Some ''spa02'') (debug_error ''Invalid language code:'' c (cycler_browser s))))),
       currentIndex := - 1\<rparr>"
  using assms
  by (simp add: languageSelect_change_def Let_def stopCycling_update updateGreeting_unlisted
      saveToStorage_update findIndex_none cong: if_cong option.case_cong)








lemma example_cycler_fields:
  "languages example_cycler = example_languages"
  "languageSelect_value example_cycler = ''en''"
  "speedSlider_value example_cycler = ''1.5''"
  "cycleInterval example_cycler = None"
  "intervals example_cycler = Map.empty"
  "intervalCount example_cycler = 0"
  "greeting_text example_cycler = []"
  "greeting_rtl example_cycler = False"
  "cycler_browser example_cycler = empty_browser"
  by (simp_all add: example_cycler_def)

lemma example_codes:
  "code ` set example_languages = {''en'', ''es'', ''ar''}"
  by (auto simp: example_languages_def)

lemma example_find:
  "find (\<lambda>l. code l = ''en'') example_languages
     = Some \<lparr>code = ''en'', name = ''English'', greeting = ''Hello World'', rtl = False\<rparr>"
  "find (\<lambda>l. code l = ''ar'') example_languages
     = Some \<lparr>code = ''ar'', name = ''Arabic'', greeting = ''Marhaban bialealam'', rtl = True\<rparr>"
  "find (\<lambda>l. code l = ''xx'') example_languages = None"
  by (simp_all add: example_languages_def)

lemma example_cycling_fields:
  "languages example_cycling = example_languages"
  "cycleInterval example_cycling = Some 1"
  "intervals example_cycling = [1 \<mapsto> ''1.5'']"
  "isCycling example_cycling"
  "currentIndex example_cycling = 0"
  "greeting_text example_cycling = ''Hello World''"
  "greeting_rtl example_cycling = False"
  "speedSlider_value example_cycling = ''1.5''"
  "cycler_browser example_cycling = empty_browser"
  by (simp_all add: example_cycling_def initSPA02_greeting_def Let_def startCycling_update
      example_cycler_fields updateGreeting_listed [where lang = "\<lparr>code = ''en'', name = ''English'', greeting = ''Hello World'', rtl = False\<rparr>"]
      example_find findIndex_def example_languages_def)






lemma denied_cycling_fields:
  "languages denied_cycling = example_languages"
  "cycleInterval denied_cycling = Some 1"
  "speedSlider_value denied_cycling = ''1.5''"
  "cycler_browser denied_cycling = denying_browser"
  by (simp_all add: denied_cycling_def example_cycling_fields)

section \<open>The cycler: selecting a language\<close>

text \<open>
  Claim C7, as amended. The \<^verbatim>\<open>change\<close> listener runs with the selector holding the
  selected code \<open>c\<close>. If \<open>c\<close> is the code of a language, and \<open>lang\<close> is the first entry
  with that code, then afterwards auto-cycling is off and the running interval is cleared,
  the greeting shows the greeting text of \<open>lang\<close>, the \<^verbatim>\<open>rtl\<close> class is set exactly
  when \<open>lang\<close> is written right to left, \<^verbatim>\<open>currentIndex\<close> is the index of \<open>lang\<close>,
  and the code and the slider value have been handed to \<^verbatim>\<open>Utils.storage.set\<close> under
  the namespace \<^verbatim>\<open>spa02\<close>. Persisting is best-effort: in a browser that accepts the
  writes the two items hold their JSON texts; in a browser that denies storage the store
  is unchanged and two \<^verbatim>\<open>console.error\<close> lines report the failed writes. If \<open>c\<close> is
  not the code of any language, the greeting and its direction are left as they were and
  one \<^verbatim>\<open>console.error\<close> line reports the code (a write that fails afterwards adds
  a line of its own); the cycler has no error display. The listener has nevertheless
  stopped auto-cycling (the interval is cleared and the status line shows the manual
  text), has handed the unlisted code and the slider value to
  \<^verbatim>\<open>Utils.storage.set\<close>, and sets \<^verbatim>\<open>currentIndex\<close> to -1.
\<close>

theorem selecting_a_language:
  "(find (\<lambda>l. code l = c) (languages s) = Some lang \<longrightarrow>
      \<not> isCycling (languageSelect_change P c (s\<lparr>languageSelect_value := c\<rparr>))
    \<and> (\<forall>i. cycleInterval s = Some i \<and> i \<noteq> 0 \<longrightarrow>
          intervals (languageSelect_change P c (s\<lparr>languageSelect_value := c\<rparr>)) i = None)
    \<and> greeting_text (languageSelect_change P c (s\<lparr>languageSelect_value := c\<rparr>)) = greeting lang
    \<and> greeting_rtl (languageSelect_change P c (s\<lparr>languageSelect_value := c\<rparr>)) = rtl lang
    \<and> code lang = c
    \<and> 0 \<le> currentIndex (languageSelect_change P c (s\<lparr>languageSelect_value := c\<rparr>))
    \<and> currentIndex (languageSelect_change P c (s\<lparr>languageSelect_value := c\<rparr>))
         < int (length (languages s))
    \<and> languages s ! nat (currentIndex (languageSelect_change P c (s\<lparr>languageSelect_value := c\<rparr>)))
         = lang
    \<and> cycler_browser (languageSelect_change P c (s\<lparr>languageSelect_value := c\<rparr>)) =
         snd (storage_set (json P) ''cycleSpeed'' (JSString (speedSlider_value s)) (Some ''spa02'')
           (snd (storage_set (json P) ''selectedLanguage'' (JSString c)
              (Some ''spa02'') (cycler_browser s))))
    \<and> (window_localStorage (cycler_browser s) = Inr ls
        \<and> JSON_stringify (json P) (JSString c) = Inr (Some tc)
        \<and> JSON_stringify (json P) (JSString (speedSlider_value s)) = Inr (Some ts)
        \<and> (\<forall>items k w. \<not> ls_refuses ls items k w)
        \<longrightarrow> localStorage_getItem ''spa02.selectedLanguage''
              (cycler_browser (languageSelect_change P c (s\<lparr>languageSelect_value := c\<rparr>)))
              = Inr (Some tc)
          \<and> localStorage_getItem ''spa02.cycleSpeed''
              (cycler_browser (languageSelect_change P c (s\<lparr>languageSelect_value := c\<rparr>)))
              = Inr (Some ts))
    \<and> (ls_denied (localStorage (cycler_browser s))
        \<longrightarrow> localStorage (cycler_browser (languageSelect_change P c (s\<lparr>languageSelect_value := c\<rparr>)))
              = localStorage (cycler_browser s)
          \<and> console_errors
              (cycler_browser (languageSelect_change P c (s\<lparr>languageSelect_value := c\<rparr>)))
              = console_errors (cycler_browser s)
                @ [(''Error saving to localStorage:'', Some (ErrorArg SecurityError)),
                   (''Error saving to localStorage:'', Some (ErrorArg SecurityError))]))
   \<and> (find (\<lambda>l. code l = c) (languages s) = None \<longrightarrow>
        greeting_text (languageSelect_change P c (s\<lparr>languageSelect_value := c\<rparr>)) = greeting_text s
      \<and> greeting_rtl (languageSelect_change P c (s\<lparr>languageSelect_value := c\<rparr>)) = greeting_rtl s
      \<and> (\<exists>rest. console_errors
                   (cycler_browser (languageSelect_change P c (s\<lparr>languageSelect_value := c\<rparr>)))
                 = console_errors (cycler_browser s)
                   @ [(''Invalid language code:'', if c = [] then None else Some (TextArg c))]
                   @ rest)
      \<and> \<not> isCycling (languageSelect_change P c (s\<lparr>languageSelect_value := c\<rparr>))
      \<and> currentIndex (languageSelect_change P c (s\<lparr>languageSelect_value := c\<rparr>)) = - 1
      \<and> (\<forall>i. cycleInterval s = Some i \<and> i \<noteq> 0 \<longrightarrow>
            intervals (languageSelect_change P c (s\<lparr>languageSelect_value := c\<rparr>)) i = None)
      \<and> status_text (languageSelect_change P c (s\<lparr>languageSelect_value := c\<rparr>))
           = content_status_manual s
      \<and> cycler_browser (languageSelect_change P c (s\<lparr>languageSelect_value := c\<rparr>)) =
           snd (storage_set (json P) ''cycleSpeed'' (JSString (speedSlider_value s)) (Some ''spa02'')
             (snd (storage_set (json P) ''selectedLanguage'' (JSString c) (Some ''spa02'')
                (debug_error ''Invalid language code:'' c (cycler_browser s))))))"
proof (intro conjI impI)
  assume listed: "find (\<lambda>l. code l = c) (languages s) = Some lang"
  note eq = languageSelect_change_listed [OF listed, of P]
  note idx = findIndex_some [OF listed]
  show "\<not> isCycling (languageSelect_change P c (s\<lparr>languageSelect_value := c\<rparr>))"
    by (simp add: eq)
  show "\<forall>i. cycleInterval s = Some i \<and> i \<noteq> 0 \<longrightarrow>
          intervals (languageSelect_change P c (s\<lparr>languageSelect_value := c\<rparr>)) i = None"
    by (simp add: eq)
  show "greeting_text (languageSelect_change P c (s\<lparr>languageSelect_value := c\<rparr>)) = greeting lang"
    by (simp add: eq)
  show "greeting_rtl (languageSelect_change P c (s\<lparr>languageSelect_value := c\<rparr>)) = rtl lang"
    by (simp add: eq)
  show "code lang = c"
    using listed by (auto simp: find_Some_iff)
  show "0 \<le> currentIndex (languageSelect_change P c (s\<lparr>languageSelect_value := c\<rparr>))"
    using idx(1) by (simp add: eq)
  show "currentIndex (languageSelect_change P c (s\<lparr>languageSelect_value := c\<rparr>))
         < int (length (languages s))"
    using idx(2) by (simp add: eq)
  show "languages s ! nat (currentIndex (languageSelect_change P c (s\<lparr>languageSelect_value := c\<rparr>)))
         = lang"
    using idx(3) by (simp add: eq)
  show "cycler_browser (languageSelect_change P c (s\<lparr>languageSelect_value := c\<rparr>)) =
         snd (storage_set (json P) ''cycleSpeed'' (JSString (speedSlider_value s)) (Some ''spa02'')
           (snd (storage_set (json P) ''selectedLanguage'' (JSString c)
              (Some ''spa02'') (cycler_browser s))))"
    by (simp add: eq)
  {
    assume store: "window_localStorage (cycler_browser s) = Inr ls
        \<and> JSON_stringify (json P) (JSString c) = Inr (Some tc)
        \<and> JSON_stringify (json P) (JSString (speedSlider_value s)) = Inr (Some ts)
        \<and> (\<forall>items k w. \<not> ls_refuses ls items k w)"
    then show "localStorage_getItem ''spa02.selectedLanguage''
              (cycler_browser (languageSelect_change P c (s\<lparr>languageSelect_value := c\<rparr>)))
              = Inr (Some tc)"
      using saved_items(1) [of "cycler_browser s" ls "json P" c tc "speedSlider_value s" ts]
      by (simp add: eq)
    from store show "localStorage_getItem ''spa02.cycleSpeed''
              (cycler_browser (languageSelect_change P c (s\<lparr>languageSelect_value := c\<rparr>)))
              = Inr (Some ts)"
      using saved_items(2) [of "cycler_browser s" ls "json P" c tc "speedSlider_value s" ts]
      by (simp add: eq)
  }
  {
    assume denied: "ls_denied (localStorage (cycler_browser s))"
    show "localStorage (cycler_browser (languageSelect_change P c (s\<lparr>languageSelect_value := c\<rparr>)))
              = localStorage (cycler_browser s)"
      by (simp add: eq saved_denied [OF denied])
    show "console_errors
              (cycler_browser (languageSelect_change P c (s\<lparr>languageSelect_value := c\<rparr>)))
              = console_errors (cycler_browser s)
                @ [(''Error saving to localStorage:'', Some (ErrorArg SecurityError)),
                   (''Error saving to localStorage:'', Some (ErrorArg SecurityError))]"
      by (simp add: eq saved_denied [OF denied])
  }
next
  assume unlisted: "find (\<lambda>l. code l = c) (languages s) = None"
  note eq = languageSelect_change_unlisted [OF unlisted, of P]
  show "greeting_text (languageSelect_change P c (s\<lparr>languageSelect_value := c\<rparr>)) = greeting_text s"
    by (simp add: eq)
  show "greeting_rtl (languageSelect_change P c (s\<lparr>languageSelect_value := c\<rparr>)) = greeting_rtl s"
    by (simp add: eq)
  show "\<not> isCycling (languageSelect_change P c (s\<lparr>languageSelect_value := c\<rparr>))"
    by (simp add: eq)
  show "currentIndex (languageSelect_change P c (s\<lparr>languageSelect_value := c\<rparr>)) = - 1"
    by (simp add: eq)
  show "\<forall>i. cycleInterval s = Some i \<and> i \<noteq> 0 \<longrightarrow>
          intervals (languageSelect_change P c (s\<lparr>languageSelect_value := c\<rparr>)) i = None"
    by (simp add: eq)
  show "status_text (languageSelect_change P c (s\<lparr>languageSelect_value := c\<rparr>))
           = content_status_manual s"
    by (simp add: eq)
  show "cycler_browser (languageSelect_change P c (s\<lparr>languageSelect_value := c\<rparr>)) =
           snd (storage_set (json P) ''cycleSpeed'' (JSString (speedSlider_value s)) (Some ''spa02'')
             (snd (storage_set (json P) ''selectedLanguage'' (JSString c) (Some ''spa02'')
                (debug_error ''Invalid language code:'' c (cycler_browser s)))))"
    by (simp add: eq)
  let ?b0 = "debug_error ''Invalid language code:'' c (cycler_browser s)"
  let ?b1 = "snd (storage_set (json P) ''selectedLanguage'' (JSString c) (Some ''spa02'') ?b0)"
  let ?b2 = "snd (storage_set (json P) ''cycleSpeed'' (JSString (speedSlider_value s)) (Some ''spa02'') ?b1)"
  obtain r1 where r1: "console_errors ?b1 = console_errors ?b0 @ r1"
    using storage_set_console [of "json P" "''selectedLanguage''" "JSString c" "Some ''spa02''" ?b0]
    by auto
  obtain r2 where r2: "console_errors ?b2 = console_errors ?b1 @ r2"
    using storage_set_console [of "json P" "''cycleSpeed''" "JSString (speedSlider_value s)"
        "Some ''spa02''" ?b1]
    by auto
  have "console_errors ?b2 = console_errors (cycler_browser s)
          @ [(''Invalid language code:'', if c = [] then None else Some (TextArg c))] @ (r1 @ r2)"
    unfolding r2 r1 by (simp add: debug_error_def console_error_def)
  then show "\<exists>rest. console_errors
                   (cycler_browser (languageSelect_change P c (s\<lparr>languageSelect_value := c\<rparr>)))
                 = console_errors (cycler_browser s)
                   @ [(''Invalid language code:'', if c = [] then None else Some (TextArg c))]
                   @ rest"
    unfolding eq by (simp del: append_assoc)
qed

text \<open>
  In the running example cycler, selecting \<^verbatim>\<open>ar\<close> shows the third greeting from right
  to left and stores the code and the speed; in the browser that denies storage the same
  selection logs two failed writes; selecting the unknown \<^verbatim>\<open>xx\<close> leaves the greeting
  alone, shows the manual status and logs one line.
\<close>

theorem selecting_a_language_witness:
  "find (\<lambda>l. code l = ''ar'') (languages example_cycling)
     = Some \<lparr>code = ''ar'', name = ''Arabic'', greeting = ''Marhaban bialealam'', rtl = True\<rparr>
   \<and> cycleInterval example_cycling = Some 1
   \<and> \<not> isCycling (languageSelect_change example_platform ''ar''
                      (example_cycling\<lparr>languageSelect_value := ''ar''\<rparr>))
   \<and> intervals (languageSelect_change example_platform ''ar''
                      (example_cycling\<lparr>languageSelect_value := ''ar''\<rparr>)) 1 = None
   \<and> greeting_text (languageSelect_change example_platform ''ar''
                      (example_cycling\<lparr>languageSelect_value := ''ar''\<rparr>)) = ''Marhaban bialealam''
   \<and> greeting_rtl (languageSelect_change example_platform ''ar''
                      (example_cycling\<lparr>languageSelect_value := ''ar''\<rparr>))
   \<and> currentIndex (languageSelect_change example_platform ''ar''
                      (example_cycling\<lparr>languageSelect_value := ''ar''\<rparr>)) = 2
   \<and> localStorage_getItem ''spa02.selectedLanguage''
        (cycler_browser (languageSelect_change example_platform ''ar''
                      (example_cycling\<lparr>languageSelect_value := ''ar''\<rparr>)))
       = Inr (Some ([CHR 0x22] @ ''ar'' @ [CHR 0x22]))
   \<and> localStorage_getItem ''spa02.cycleSpeed''
        (cycler_browser (languageSelect_change example_platform ''ar''
                      (example_cycling\<lparr>languageSelect_value := ''ar''\<rparr>)))
       = Inr (Some ([CHR 0x22] @ ''1.5'' @ [CHR 0x22]))
   \<and> ls_denied (localStorage (cycler_browser denied_cycling))
   \<and> console_errors (cycler_browser (languageSelect_change example_platform ''ar''
                      (denied_cycling\<lparr>languageSelect_value := ''ar''\<rparr>)))
       = [(''Error saving to localStorage:'', Some (ErrorArg SecurityError)),
          (''Error saving to localStorage:'', Some (ErrorArg SecurityError))]
   \<and> find (\<lambda>l. code l = ''xx'') (languages example_cycling) = None
   \<and> greeting_text (languageSelect_change example_platform ''xx''
                      (example_cycling\<lparr>languageSelect_value := ''xx''\<rparr>)) = ''Hello World''
   \<and> status_text (languageSelect_change example_platform ''xx''
                      (example_cycling\<lparr>languageSelect_value := ''xx''\<rparr>))
       = ''Manual mode - select a language''
   \<and> console_errors (cycler_browser (languageSelect_change example_platform ''xx''
                      (example_cycling\<lparr>languageSelect_value := ''xx''\<rparr>)))
       = [(''Invalid language code:'', Some (TextArg ''xx''))]"
proof -
  let ?ar = "\<lparr>code = ''ar'', name = ''Arabic'', greeting = ''Marhaban bialealam'', rtl = True\<rparr>"
  have listed: "find (\<lambda>l. code l = ''ar'') (languages example_cycling) = Some ?ar"
    by (simp add: example_cycling_fields example_find)
  have listed': "find (\<lambda>l. code l = ''ar'') (languages denied_cycling) = Some ?ar"
    by (simp add: denied_cycling_fields example_find)
  have unlisted: "find (\<lambda>l. code l = ''xx'') (languages example_cycling) = None"
    by (simp add: example_cycling_fields example_find)
  have store: "window_localStorage (cycler_browser example_cycling) = Inr (localStorage empty_browser)"
    by (simp add: example_cycling_fields window_localStorage_def empty_browser_def)
  have tc: "JSON_stringify (json example_platform) (JSString ''ar'')
              = Inr (Some ([CHR 0x22] @ ''ar'' @ [CHR 0x22]))"
    by (simp add: example_platform_def ascii_json_def ascii_stringify_def plain_char_def)
  have ts: "JSON_stringify (json example_platform) (JSString (speedSlider_value example_cycling))
              = Inr (Some ([CHR 0x22] @ ''1.5'' @ [CHR 0x22]))"
    by (simp add: example_cycling_fields example_platform_def ascii_json_def ascii_stringify_def
        plain_char_def)
  have room: "\<forall>items k w. \<not> ls_refuses (localStorage empty_browser) items k w"
    by (simp add: empty_browser_def)
  have denied: "ls_denied (localStorage (cycler_browser denied_cycling))"
    by (simp add: denied_cycling_fields denying_browser_def)
  have quiet: "console_errors (cycler_browser denied_cycling) = []"
    by (simp add: denied_cycling_fields denying_browser_def)
  have manual: "content_status_manual example_cycling = ''Manual mode - select a language''"
    by (simp add: example_cycling_def initSPA02_greeting_def Let_def startCycling_update
        example_cycler_def updateGreeting_def example_languages_def)
  note sel = selecting_a_language [of "''ar''" example_cycling ?ar example_platform
      "localStorage empty_browser" "[CHR 0x22] @ ''ar'' @ [CHR 0x22]"
      "[CHR 0x22] @ ''1.5'' @ [CHR 0x22]"]
  note den = selecting_a_language [of "''ar''" denied_cycling ?ar example_platform]
  note bad = selecting_a_language [of "''xx''" example_cycling _ example_platform]
  have idx: "currentIndex (languageSelect_change example_platform ''ar''
                      (example_cycling\<lparr>languageSelect_value := ''ar''\<rparr>)) = 2"
    by (simp add: languageSelect_change_listed [OF listed] example_cycling_fields findIndex_def
        example_languages_def)
  have logged: "console_errors (cycler_browser (languageSelect_change example_platform ''xx''
                      (example_cycling\<lparr>languageSelect_value := ''xx''\<rparr>)))
       = [(''Invalid language code:'', Some (TextArg ''xx''))]"
    by (simp add: languageSelect_change_unlisted [OF unlisted] example_cycling_fields
        storage_set_def Let_def window_localStorage_def setItem_def empty_browser_def
        debug_error_def console_error_def item_text_def
        example_platform_def ascii_json_def ascii_stringify_def plain_char_def)
  from sel listed
  have shown: "\<not> isCycling (languageSelect_change example_platform ''ar''
                      (example_cycling\<lparr>languageSelect_value := ''ar''\<rparr>))
   \<and> intervals (languageSelect_change example_platform ''ar''
                      (example_cycling\<lparr>languageSelect_value := ''ar''\<rparr>)) 1 = None
   \<and> greeting_text (languageSelect_change example_platform ''ar''
                      (example_cycling\<lparr>languageSelect_value := ''ar''\<rparr>)) = ''Marhaban bialealam''
   \<and> greeting_rtl (languageSelect_change example_platform ''ar''
                      (example_cycling\<lparr>languageSelect_value := ''ar''\<rparr>))"
    by (simp add: example_cycling_fields)
  from sel listed
  have "window_localStorage (cycler_browser example_cycling) = Inr (localStorage empty_browser)
        \<and> JSON_stringify (json example_platform) (JSString ''ar'')
            = Inr (Some ([CHR 0x22] @ ''ar'' @ [CHR 0x22]))
        \<and> JSON_stringify (json example_platform) (JSString (speedSlider_value example_cycling))
            = Inr (Some ([CHR 0x22] @ ''1.5'' @ [CHR 0x22]))
        \<and> (\<forall>items k w. \<not> ls_refuses (localStorage empty_browser) items k w)
        \<longrightarrow> localStorage_getItem ''spa02.selectedLanguage''
              (cycler_browser (languageSelect_change example_platform ''ar''
                 (example_cycling\<lparr>languageSelect_value := ''ar''\<rparr>)))
              = Inr (Some ([CHR 0x22] @ ''ar'' @ [CHR 0x22]))
          \<and> localStorage_getItem ''spa02.cycleSpeed''
              (cycler_browser (languageSelect_change example_platform ''ar''
                 (example_cycling\<lparr>languageSelect_value := ''ar''\<rparr>)))
              = Inr (Some ([CHR 0x22] @ ''1.5'' @ [CHR 0x22]))"
    by blast
  with store tc ts room
  have saved: "localStorage_getItem ''spa02.selectedLanguage''
        (cycler_browser (languageSelect_change example_platform ''ar''
                      (example_cycling\<lparr>languageSelect_value := ''ar''\<rparr>)))
       = Inr (Some ([CHR 0x22] @ ''ar'' @ [CHR 0x22]))
   \<and> localStorage_getItem ''spa02.cycleSpeed''
        (cycler_browser (languageSelect_change example_platform ''ar''
                      (example_cycling\<lparr>languageSelect_value := ''ar''\<rparr>)))
       = Inr (Some ([CHR 0x22] @ ''1.5'' @ [CHR 0x22]))"
    by blast
  from den listed' denied
  have "console_errors (cycler_browser (languageSelect_change example_platform ''ar''
                      (denied_cycling\<lparr>languageSelect_value := ''ar''\<rparr>)))
       = console_errors (cycler_browser denied_cycling)
         @ [(''Error saving to localStorage:'', Some (ErrorArg SecurityError)),
            (''Error saving to localStorage:'', Some (ErrorArg SecurityError))]"
    by blast
  then have refused: "console_errors (cycler_browser (languageSelect_change example_platform ''ar''
                      (denied_cycling\<lparr>languageSelect_value := ''ar''\<rparr>)))
       = [(''Error saving to localStorage:'', Some (ErrorArg SecurityError)),
          (''Error saving to localStorage:'', Some (ErrorArg SecurityError))]"
    unfolding quiet by simp
  from bad unlisted
  have b: "greeting_text (languageSelect_change example_platform ''xx''
                      (example_cycling\<lparr>languageSelect_value := ''xx''\<rparr>)) = ''Hello World''"
    by (simp add: example_cycling_fields)
  from bad unlisted
  have "status_text (languageSelect_change example_platform ''xx''
                      (example_cycling\<lparr>languageSelect_value := ''xx''\<rparr>))
          = content_status_manual example_cycling"
    by blast
  then have st: "status_text (languageSelect_change example_platform ''xx''
                      (example_cycling\<lparr>languageSelect_value := ''xx''\<rparr>))
          = ''Manual mode - select a language''"
    unfolding manual .
  from shown saved refused denied b st idx logged listed unlisted example_cycling_fields(2)
  show ?thesis
    by blast
qed

text \<open>
  The claim as stated fails twice. Selecting the unlisted code \<^verbatim>\<open>xx\<close> in the running
  cycler does more than log: auto-cycling stops, the status line changes to the manual
  text and \<^verbatim>\<open>xx\<close> is stored as the selected language. And in the browser that denies
  storage, selecting the listed code \<^verbatim>\<open>ar\<close> persists nothing.
\<close>

theorem selecting_a_language_counterexample:
  "''xx'' \<notin> code ` set (languages example_cycling)
   \<and> isCycling example_cycling
   \<and> \<not> isCycling (languageSelect_change example_platform ''xx''
                      (example_cycling\<lparr>languageSelect_value := ''xx''\<rparr>))
   \<and> status_text example_cycling = ''Auto-cycling through languages...''
   \<and> status_text (languageSelect_change example_platform ''xx''
                      (example_cycling\<lparr>languageSelect_value := ''xx''\<rparr>))
       = ''Manual mode - select a language''
   \<and> localStorage_getItem ''spa02.selectedLanguage''
        (cycler_browser (languageSelect_change example_platform ''xx''
                      (example_cycling\<lparr>languageSelect_value := ''xx''\<rparr>)))
       = Inr (Some ([CHR 0x22] @ ''xx'' @ [CHR 0x22]))
   \<and> ''ar'' \<in> code ` set (languages denied_cycling)
   \<and> ls_items (localStorage (cycler_browser (languageSelect_change example_platform ''ar''
                      (denied_cycling\<lparr>languageSelect_value := ''ar''\<rparr>))))
        ''spa02.selectedLanguage'' = None
   \<and> ls_items (localStorage (cycler_browser (languageSelect_change example_platform ''ar''
                      (denied_cycling\<lparr>languageSelect_value := ''ar''\<rparr>))))
        ''spa02.cycleSpeed'' = None"
proof -
  let ?ar = "\<lparr>code = ''ar'', name = ''Arabic'', greeting = ''Marhaban bialealam'', rtl = True\<rparr>"
  have listed: "find (\<lambda>l. code l = ''ar'') (languages denied_cycling) = Some ?ar"
    by (simp add: denied_cycling_fields example_find)
  have unlisted: "find (\<lambda>l. code l = ''xx'') (languages example_cycling) = None"
    by (simp add: example_cycling_fields example_find)
  have texts: "content_status_manual example_cycling = ''Manual mode - select a language''"
    "status_text example_cycling = ''Auto-cycling through languages...''"
    by (simp_all add: example_cycling_def initSPA02_greeting_def Let_def startCycling_update
        example_cycler_def updateGreeting_def example_languages_def)
  have denied: "ls_denied (localStorage denying_browser)"
    by (simp add: denying_browser_def)
  have stored: "localStorage_getItem ''spa02.selectedLanguage''
        (cycler_browser (languageSelect_change example_platform ''xx''
                      (example_cycling\<lparr>languageSelect_value := ''xx''\<rparr>)))
       = Inr (Some ([CHR 0x22] @ ''xx'' @ [CHR 0x22]))"
    by (simp add: languageSelect_change_unlisted [OF unlisted] example_cycling_fields
        storage_set_def Let_def window_localStorage_def setItem_def empty_browser_def
        debug_error_def console_error_def item_text_def finalKey_def
        localStorage_getItem_def getItem_def
        example_platform_def ascii_json_def ascii_stringify_def plain_char_def)
  have unsaved: "localStorage (cycler_browser (languageSelect_change example_platform ''ar''
                      (denied_cycling\<lparr>languageSelect_value := ''ar''\<rparr>)))
                  = localStorage denying_browser"
    by (simp add: languageSelect_change_listed [OF listed] denied_cycling_fields
        saved_denied [OF denied])
  have absent: "ls_items (localStorage (cycler_browser (languageSelect_change example_platform ''ar''
                      (denied_cycling\<lparr>languageSelect_value := ''ar''\<rparr>))))
        ''spa02.selectedLanguage'' = None"
    "ls_items (localStorage (cycler_browser (languageSelect_change example_platform ''ar''
                      (denied_cycling\<lparr>languageSelect_value := ''ar''\<rparr>))))
        ''spa02.cycleSpeed'' = None"
    by (simp_all add: unsaved denying_browser_def)
  have stopped: "isCycling example_cycling"
    "\<not> isCycling (languageSelect_change example_platform ''xx''
                      (example_cycling\<lparr>languageSelect_value := ''xx''\<rparr>))"
    "status_text (languageSelect_change example_platform ''xx''
                      (example_cycling\<lparr>languageSelect_value := ''xx''\<rparr>))
       = ''Manual mode - select a language''"
    by (simp_all add: languageSelect_change_unlisted [OF unlisted] example_cycling_fields texts)
  have codes: "''xx'' \<notin> code ` set (languages example_cycling)"
    "''ar'' \<in> code ` set (languages denied_cycling)"
    by (simp_all add: example_cycling_fields denied_cycling_fields example_codes)
  from codes stored absent stopped texts(2) show ?thesis
    by blast
qed

section \<open>The cycler: the index stays in range\<close>




text \<open>
  The scenario of the specification: from the first language, two ticks show the third
  greeting from right to left, and the third tick wraps to the first.
\<close>

lemma three_language_cycle:
  "map_sum id (\<lambda>s. (currentIndex s, greeting_text s, greeting_rtl s))
     (cycler_run example_platform [IntervalFires 1, IntervalFires 1] example_cycling)
     = Inr (2, ''Marhaban bialealam'', True)"
  "map_sum id (\<lambda>s. (currentIndex s, greeting_text s, greeting_rtl s))
     (cycler_run example_platform [IntervalFires 1, IntervalFires 1, IntervalFires 1] example_cycling)
     = Inr (0, ''Hello World'', False)"
  by code_simp+

end
